theory Spec2Isabelle
  imports Complex_Main
begin

section \<open>Unscented Kalman filter (ukf.cpp)\<close>

text \<open>
  A shallow embedding of \<^verbatim>\<open>src/ukf.cpp\<close>. The class \<^verbatim>\<open>UKF\<close> is a record of its
  member fields; every member function takes the object and returns the updated one.

  Numbers. A C++ \<^verbatim>\<open>double\<close> is idealised as a real number: rounding and overflow are
  not modelled, except where the angle-normalization loop is run on doubles to see what
  the idealisation hides of its termination. The operations that have no real value are
  written out, because HOL's \<open>x / 0\<close> and \<open>sqrt\<close> of a negative number are
  ordinary reals while IEEE-754 yields
  an infinity or a NaN there: a division whose divisor can be zero, the square root of
  a number that can be negative and the inverse of a singular matrix make the result
  \<open>NonFinite\<close>. \<open>NonFinite\<close> is not an error the C++ reports: the member function
  returns normally and leaves non-finite numbers in the fields it wrote. The other way
  a call can fail to leave a state is a read beyond the end of the measurement vector,
  \<open>OutOfRange\<close>: undefined behaviour in C++, an abort when Eigen's assertions are on.

  Matrices. An Eigen vector is a list of reals, an Eigen matrix the list of its
  columns, so that \<^verbatim>\<open>M.col(i)\<close> is \<open>M ! i\<close> and \<^verbatim>\<open>M(r, c)\<close> is \<open>M ! c ! r\<close>. The
  dimensions \<^verbatim>\<open>n_x_\<close>, \<^verbatim>\<open>n_aug_\<close>, \<^verbatim>\<open>n_z_radar_\<close>, \<^verbatim>\<open>n_z_lidar_\<close> are assigned once
  by the constructor and fix the shape of every matrix; they are constants here. Isabelle
  refuses a name that ends in an underscore, so a member \<^verbatim>\<open>x_\<close> of the source is
  written \<open>x_'\<close>.
\<close>

type_synonym vec = "real list"
type_synonym mat = "real list list"

datatype fault = NonFiniteNumbers | ReadOutOfRange

type_synonym 'a fp = "fault + 'a"

abbreviation Finite :: "'a \<Rightarrow> 'a fp" where
  "Finite \<equiv> Inr"

abbreviation NonFinite :: "'a fp" where
  "NonFinite \<equiv> Inl NonFiniteNumbers"

abbreviation OutOfRange :: "'a fp" where
  "OutOfRange \<equiv> Inl ReadOutOfRange"

text \<open>
  A loop that fills a matrix column by column leaves a finite matrix when every column
  is finite.
\<close>

fun all_columns :: "'a fp list \<Rightarrow> 'a list fp" where
  "all_columns [] = Finite []"
| "all_columns (c # cs) =
     (case c of
        Inl e \<Rightarrow> Inl e
      | Finite y \<Rightarrow> (case all_columns cs of Inl e \<Rightarrow> Inl e | Finite ys \<Rightarrow> Finite (y # ys)))"

subsection \<open>Eigen's vector and matrix operations\<close>

definition vadd :: "vec \<Rightarrow> vec \<Rightarrow> vec" where
  "vadd a b = map2 (+) a b"

definition vsub :: "vec \<Rightarrow> vec \<Rightarrow> vec" where
  "vsub a b = map2 (-) a b"

definition smul :: "real \<Rightarrow> vec \<Rightarrow> vec" where
  "smul c a = map ((*) c) a"

definition madd :: "mat \<Rightarrow> mat \<Rightarrow> mat" where
  "madd A B = map2 vadd A B"

definition msub :: "mat \<Rightarrow> mat \<Rightarrow> mat" where
  "msub A B = map2 vsub A B"

definition zero_vec :: "nat \<Rightarrow> vec" where
  "zero_vec n = replicate n 0"

definition zero_mat :: "nat \<Rightarrow> nat \<Rightarrow> mat" where
  \<comment> \<open>\<^verbatim>\<open>MatrixXd(r, c)\<close> after \<^verbatim>\<open>fill(0.0)\<close>\<close>
  "zero_mat r c = replicate c (zero_vec r)"

definition outer :: "vec \<Rightarrow> vec \<Rightarrow> mat" where
  \<comment> \<open>\<^verbatim>\<open>a * b.transpose()\<close>: column \<open>j\<close> is \<open>b ! j\<close> times \<open>a\<close>\<close>
  "outer a b = map (\<lambda>bj. smul bj a) b"

definition nrows :: "mat \<Rightarrow> nat" where
  "nrows A = (case A of [] \<Rightarrow> 0 | a # _ \<Rightarrow> length a)"

definition mat_vec :: "mat \<Rightarrow> vec \<Rightarrow> vec" where
  \<comment> \<open>\<^verbatim>\<open>A * v\<close>: the combination of the columns of \<open>A\<close> with the entries of \<open>v\<close>\<close>
  "mat_vec A v = fold (\<lambda>(a, vj) acc. vadd acc (smul vj a)) (zip A v) (zero_vec (nrows A))"

definition mat_mul :: "mat \<Rightarrow> mat \<Rightarrow> mat" where
  "mat_mul A B = map (mat_vec A) B"

definition transpose_mat :: "mat \<Rightarrow> mat" where
  "transpose_mat A = map (\<lambda>r. map (\<lambda>a. a ! r) A) [0..<nrows A]"

subsection \<open>Angle normalization\<close>

text \<open>
  The loops
  \<^verbatim>\<open>while (a > M_PI) a -= 2. * M_PI;  while (a < -M_PI) a += 2. * M_PI;\<close>
  written out five times in the source (lines 295-302, 345-352, 473-480, 485-492,
  504-511).
\<close>

function wrap_down :: "real \<Rightarrow> real" where
  "wrap_down a = (if a > pi then wrap_down (a - 2 * pi) else a)"
  by pat_completeness auto
termination
proof (relation "measure (\<lambda>a. nat \<lceil>(a - pi) / (2 * pi)\<rceil>)")
  show "wf (measure (\<lambda>a. nat \<lceil>(a - pi) / (2 * pi)\<rceil>))"
    by simp
next
  fix a :: real
  assume gt: "pi < a"
  have shift: "(a - 2 * pi - pi) / (2 * pi) = (a - pi) / (2 * pi) - 1"
    by (simp add: field_simps)
  have pos: "0 < (a - pi) / (2 * pi)"
    using gt by simp
  then have "0 < \<lceil>(a - pi) / (2 * pi)\<rceil>"
    by linarith
  then have "nat \<lceil>(a - pi) / (2 * pi) - 1\<rceil> < nat \<lceil>(a - pi) / (2 * pi)\<rceil>"
    by simp
  then show "(a - 2 * pi, a) \<in> measure (\<lambda>a. nat \<lceil>(a - pi) / (2 * pi)\<rceil>)"
    by (simp only: in_measure shift)
qed

function wrap_up :: "real \<Rightarrow> real" where
  "wrap_up a = (if a < - pi then wrap_up (a + 2 * pi) else a)"
  by pat_completeness auto
termination
proof (relation "measure (\<lambda>a. nat \<lceil>(- pi - a) / (2 * pi)\<rceil>)")
  show "wf (measure (\<lambda>a. nat \<lceil>(- pi - a) / (2 * pi)\<rceil>))"
    by simp
next
  fix a :: real
  assume lt: "a < - pi"
  have shift: "(- pi - (a + 2 * pi)) / (2 * pi) = (- pi - a) / (2 * pi) - 1"
    by (simp add: field_simps)
  have pos: "0 < (- pi - a) / (2 * pi)"
    using lt by simp
  then have "0 < \<lceil>(- pi - a) / (2 * pi)\<rceil>"
    by linarith
  then have "nat \<lceil>(- pi - a) / (2 * pi) - 1\<rceil> < nat \<lceil>(- pi - a) / (2 * pi)\<rceil>"
    by simp
  then show "(a + 2 * pi, a) \<in> measure (\<lambda>a. nat \<lceil>(- pi - a) / (2 * pi)\<rceil>)"
    by (simp only: in_measure shift)
qed

declare wrap_down.simps [simp del] wrap_up.simps [simp del]

definition normalize_angle :: "real \<Rightarrow> real" where
  "normalize_angle a = wrap_up (wrap_down a)"

subsection \<open>The first normalization loop on doubles\<close>

text \<open>
  In the source the angle is a \<^verbatim>\<open>double\<close>, and \<^verbatim>\<open>a -= 2. * M_PI\<close> stores the double
  nearest to the exact difference (the default rounding mode; \<^verbatim>\<open>2. * M_PI\<close> itself is
  exact). \<open>is_double\<close> are the finite numbers of the binary64 format, \<open>m \<cdot> 2\<^sup>e\<close>
  with \<open>\<bar>m\<bar> < 2\<^sup>5\<^sup>3\<close> and \<open>-1074 \<le> e \<le> 971\<close>; \<open>nearest_double x d\<close> says that
  \<open>d\<close> is a double and no double is nearer to \<open>x\<close> (on a tie either neighbour is
  allowed); \<open>M_PI\<close> is the double that \<^verbatim>\<open>M_PI\<close> denotes. \<open>wrap_down_double a r\<close> says
  that the loop \<^verbatim>\<open>while (a > M_PI) a -= 2. * M_PI;\<close>, started at \<open>a\<close>, terminates with
  \<open>r\<close>.
\<close>

definition is_double :: "real \<Rightarrow> bool" where
  "is_double x \<longleftrightarrow>
     (\<exists>(m::int) (k::nat). \<bar>m\<bar> < 2 ^ 53 \<and>
        ((k \<le> 971 \<and> x = of_int m * 2 ^ k) \<or> (k \<le> 1074 \<and> x = of_int m / 2 ^ k)))"

definition nearest_double :: "real \<Rightarrow> real \<Rightarrow> bool" where
  "nearest_double x d \<longleftrightarrow>
     is_double d \<and> (\<forall>d'. is_double d' \<longrightarrow> \<bar>x - d\<bar> \<le> \<bar>x - d'\<bar>)"



subsection \<open>Library routines\<close>

text \<open>
  \<^verbatim>\<open>atan2\<close> of the C library, without signed zeros: the angle in \<open>(-\<pi>, \<pi>]\<close> of
  the point \<open>(x, y)\<close>, and \<open>0\<close> at the origin.
\<close>

definition atan2 :: "real \<Rightarrow> real \<Rightarrow> real" where
  "atan2 y x =
     (if 0 < x then arctan (y / x)
      else if x < 0 then (if 0 \<le> y then arctan (y / x) + pi else arctan (y / x) - pi)
      else if 0 < y then pi / 2
      else if y < 0 then - pi / 2
      else 0)"

text \<open>
  \<^verbatim>\<open>A.llt().matrixL()\<close>. Eigen is a library the repository uses and does not contain;
  its Cholesky factorisation works column by column on a copy of \<open>A\<close>: the pivot of
  column \<open>k\<close> is \<open>A(k,k)\<close> minus the squares of row \<open>k\<close> of the columns already
  computed; at the first pivot that is not positive it stops, records
  \<^verbatim>\<open>NumericalIssue\<close> in \<^verbatim>\<open>info()\<close> and leaves the remaining columns as they were.
  \<^verbatim>\<open>matrixL()\<close> is the lower triangle of what the factorisation left. The source never
  reads \<^verbatim>\<open>info()\<close>.
\<close>

definition lower_col :: "mat \<Rightarrow> nat \<Rightarrow> nat \<Rightarrow> vec" where
  "lower_col A n j = map (\<lambda>i. if i < j then 0 else A ! j ! i) [0..<n]"

definition llt_pivot :: "mat \<Rightarrow> mat \<Rightarrow> nat \<Rightarrow> real" where
  "llt_pivot A L k = A ! k ! k - sum_list (map (\<lambda>j. L ! j ! k * L ! j ! k) [0..<k])"

definition llt_column :: "mat \<Rightarrow> nat \<Rightarrow> mat \<Rightarrow> nat \<Rightarrow> real \<Rightarrow> vec" where
  "llt_column A n L k d =
     map (\<lambda>i. if i < k then 0
              else if i = k then d
              else (A ! k ! i - sum_list (map (\<lambda>j. L ! j ! i * L ! j ! k) [0..<k])) / d)
         [0..<n]"

fun llt_loop :: "mat \<Rightarrow> nat \<Rightarrow> nat list \<Rightarrow> mat \<Rightarrow> mat" where
  "llt_loop A n [] L = L"
| "llt_loop A n (k # ks) L =
     (let x = llt_pivot A L k
      in if x \<le> 0 then L @ map (lower_col A n) (k # ks)
         else llt_loop A n ks (L @ [llt_column A n L k (sqrt x)]))"

definition llt_matrixL :: "mat \<Rightarrow> mat" where
  "llt_matrixL A = llt_loop A (length A) [0..<length A] []"

fun llt_ok :: "mat \<Rightarrow> nat list \<Rightarrow> mat \<Rightarrow> bool" where
  "llt_ok A [] L = True"
| "llt_ok A (k # ks) L =
     (let x = llt_pivot A L k
      in if x \<le> 0 then False
         else llt_ok A ks (L @ [llt_column A (length A) L k (sqrt x)]))"

definition llt_info_Success :: "mat \<Rightarrow> bool" where
  \<comment> \<open>\<^verbatim>\<open>A.llt().info() == Eigen::Success\<close>: every pivot was positive\<close>
  "llt_info_Success A = llt_ok A [0..<length A] []"

text \<open>
  \<^verbatim>\<open>S.inverse()\<close> for the two shapes the source inverts, \<open>2 \<times> 2\<close> (lidar) and
  \<open>3 \<times> 3\<close> (radar), by the adjugate; in real arithmetic every method gives this
  matrix when the determinant is not zero. With a zero determinant Eigen's result holds
  infinities or NaNs. No other shape reaches \<^verbatim>\<open>inverse()\<close> in the source.
\<close>

fun inverse_mat :: "mat \<Rightarrow> mat fp" where
  "inverse_mat [[a, c], [b, d]] =
     (let det = a * d - b * c
      in if det = 0 then NonFinite
         else Finite [[d / det, - c / det], [- b / det, a / det]])"
| "inverse_mat [[a, d, g], [b, e, h], [c, f, i]] =
     (let det = a * (e * i - f * h) - b * (d * i - f * g) + c * (d * h - e * g)
      in if det = 0 then NonFinite
         else Finite [[(e * i - f * h) / det, (f * g - d * i) / det, (d * h - e * g) / det],
                      [(c * h - b * i) / det, (a * i - c * g) / det, (b * g - a * h) / det],
                      [(b * f - c * e) / det, (c * d - a * f) / det, (a * e - b * d) / det]])"
| "inverse_mat _ = NonFinite"

subsection \<open>The class UKF\<close>

datatype SensorType = LASER | RADAR

record MeasurementPackage =
  timestamp_' :: int
  sensor_type_' :: SensorType
  raw_measurements_' :: vec

text \<open>
  \<^verbatim>\<open>raw_measurements_[i]\<close> is \<open>raw_measurements_' m ! i\<close>: a LASER package carries two
  numbers, a RADAR package three. The source does not check the length; the three
  member functions that read the vector are \<open>OutOfRange\<close> when it is shorter than the
  highest index they read.
\<close>

record ukf =
  is_initialized_' :: bool
  use_laser_' :: bool
  use_radar_' :: bool
  x_' :: vec
  P_' :: mat
  time_us_' :: int
  std_a_' :: real
  std_yawdd_' :: real
  std_laspx_' :: real
  std_laspy_' :: real
  std_radr_' :: real
  std_radphi_' :: real
  std_radrd_' :: real
  Xsig_aug_' :: mat
  Xsig_pred_' :: mat
  weights_' :: vec
  lambda_' :: real
  z_pred_r_' :: vec
  S_r_' :: mat
  Zsig_radar :: mat
  Zsig_lidar :: mat
  z_pred_l_' :: vec
  S_l_' :: mat

definition n_x_' :: nat where
  "n_x_' = 5"

definition n_aug_' :: nat where
  "n_aug_' = 7"

definition n_z_radar_' :: nat where
  "n_z_radar_' = 3"

definition n_z_lidar_' :: nat where
  "n_z_lidar_' = 2"

text \<open>
  The constructor (lines 11-105). It assigns the flags, the noise parameters and
  \<^verbatim>\<open>lambda_\<close>; the vectors and matrices are allocated and not filled, and \<^verbatim>\<open>time_us_\<close>
  is not assigned, so they keep what the memory \<open>mem\<close> held. (\<^verbatim>\<open>Xsig_\<close> is allocated
  and never used; it is left out.)
\<close>

definition UKF :: "ukf \<Rightarrow> ukf" where
  "UKF mem = mem
     \<lparr> is_initialized_' := False,
       use_laser_' := True,
       use_radar_' := True,
       std_a_' := 1.5,
       std_yawdd_' := 2.0,
       std_laspx_' := 0.15,
       std_laspy_' := 0.15,
       std_radr_' := 0.3,
       std_radphi_' := 0.03,
       std_radrd_' := 0.3,
       lambda_' := real_of_int (3 - int n_x_') \<rparr>"

text \<open>
  \<^verbatim>\<open>InitializeUKF\<close> (lines 141-182). The sensor type has the two values of the
  enumeration, so one of the two branches assigns \<^verbatim>\<open>px\<close> and \<^verbatim>\<open>py\<close>; both read the
  entries 0 and 1 of the measurement. The weights divide by \<^verbatim>\<open>lambda_ + n_aug_\<close>: when
  that is zero they are not finite.
\<close>

definition InitializeUKF :: "MeasurementPackage \<Rightarrow> ukf \<Rightarrow> ukf fp" where
  "InitializeUKF meas_package s =
     (let raw = raw_measurements_' meas_package;
          (px, py) =
            (case sensor_type_' meas_package of
               LASER \<Rightarrow> (raw ! 0, raw ! 1)
             | RADAR \<Rightarrow>
                 (let rho = raw ! 0; phi = raw ! 1
                  in (cos phi * rho, sin phi * rho)))
      in if length raw < 2 then OutOfRange
         else if lambda_' s + real n_aug_' = 0 then NonFinite
         else Finite (s
           \<lparr> is_initialized_' := True,
             time_us_' := timestamp_' meas_package,
             P_' := [[1, 0, 0, 0, 0],
                    [0, 1, 0, 0, 0],
                    [0, 0, 1, 0, 0],
                    [0, 0, 0, 0.5, 0],
                    [0, 0, 0, 0, 0.5]],
             x_' := [px, py, 0.0, 0.0, 0.0],
             weights_' :=
               (lambda_' s / (lambda_' s + real n_aug_'))
               # map (\<lambda>i. 0.5 / (real n_aug_' + lambda_' s)) [1..<2 * n_aug_' + 1] \<rparr>))"

text \<open>
  The weights on doubles (lines 174-181). \<^verbatim>\<open>lambda_\<close> is a double and \<^verbatim>\<open>n_aug_\<close> an
  \<^verbatim>\<open>int\<close>; the sum and the quotient are each rounded to a nearest double.
  \<open>weights_double \<lambda> w\<close> says that \<open>w\<close> is a vector the loop can store for the spreading
  parameter \<open>\<lambda>\<close>.
\<close>

definition weights_double :: "real \<Rightarrow> vec \<Rightarrow> bool" where
  "weights_double lam w \<longleftrightarrow>
     length w = 15
     \<and> (\<exists>d. nearest_double (lam + 7) d \<and> nearest_double (lam / d) (w ! 0))
     \<and> (\<forall>i. 1 \<le> i \<and> i < 15 \<longrightarrow>
           (\<exists>d. nearest_double (7 + lam) d \<and> nearest_double (0.5 / d) (w ! i)))"

text \<open>
  \<^verbatim>\<open>GenerateAugmentedSigmaPoints\<close> (lines 196-224). \<^verbatim>\<open>sqrt(lambda_ + n_aug_)\<close> is a
  NaN when its argument is negative.
\<close>

definition augmented_mean :: "ukf \<Rightarrow> vec" where
  "augmented_mean s = x_' s @ zero_vec (n_aug_' - n_x_')"

definition augmented_covariance :: "ukf \<Rightarrow> mat" where
  "augmented_covariance s =
     map (\<lambda>c. c @ zero_vec (n_aug_' - n_x_')) (P_' s)
     @ [zero_vec n_x_' @ [std_a_' s * std_a_' s, 0],
        zero_vec n_x_' @ [0, std_yawdd_' s * std_yawdd_' s]]"

definition GenerateAugmentedSigmaPoints :: "ukf \<Rightarrow> ukf fp" where
  "GenerateAugmentedSigmaPoints s =
     (let x_aug = augmented_mean s;
          P_aug = augmented_covariance s;
          L = llt_matrixL P_aug
      in if lambda_' s + real n_aug_' < 0 then NonFinite
         else Finite (s
           \<lparr> Xsig_aug_' :=
               x_aug
               # map (\<lambda>i. vadd x_aug (smul (sqrt (lambda_' s + real n_aug_')) (L ! i))) [0..<n_aug_']
               @ map (\<lambda>i. vsub x_aug (smul (sqrt (lambda_' s + real n_aug_')) (L ! i))) [0..<n_aug_'] \<rparr>))"

text \<open>\<^verbatim>\<open>SigmaPointPrediction\<close> (lines 226-275): the loop body for one column.\<close>

definition predict_column :: "real \<Rightarrow> vec \<Rightarrow> vec" where
  "predict_column delta_t c =
     (let p_x = c ! 0;
          p_y = c ! 1;
          v = c ! 2;
          yaw = c ! 3;
          yawd = c ! 4;
          nu_a = c ! 5;
          nu_yawdd = c ! 6;
          (px_p, py_p) =
            (if \<bar>yawd\<bar> > 0.001
             then (p_x + v / yawd * (sin (yaw + yawd * delta_t) - sin yaw),
                   p_y + v / yawd * (cos yaw - cos (yaw + yawd * delta_t)))
             else (p_x + v * delta_t * cos yaw,
                   p_y + v * delta_t * sin yaw));
          v_p = v;
          yaw_p = yaw + yawd * delta_t;
          yawd_p = yawd;
          px_p = px_p + 0.5 * nu_a * delta_t * delta_t * cos yaw;
          py_p = py_p + 0.5 * nu_a * delta_t * delta_t * sin yaw;
          v_p = v_p + nu_a * delta_t;
          yaw_p = yaw_p + 0.5 * nu_yawdd * delta_t * delta_t;
          yawd_p = yawd_p + nu_yawdd * delta_t
      in [px_p, py_p, v_p, yaw_p, yawd_p])"

definition SigmaPointPrediction :: "real \<Rightarrow> ukf \<Rightarrow> ukf" where
  "SigmaPointPrediction delta_t s =
     s \<lparr> Xsig_pred_' := map (\<lambda>i. predict_column delta_t (Xsig_aug_' s ! i)) [0..<2 * n_aug_' + 1] \<rparr>"

text \<open>\<^verbatim>\<open>PredictMeanAndCovariance\<close> (lines 277-306).\<close>

definition weighted_mean :: "vec \<Rightarrow> mat \<Rightarrow> nat \<Rightarrow> vec" where
  \<comment> \<open>\<^verbatim>\<open>m.fill(0.0); for i: m = m + weights_(i) * M.col(i)\<close>\<close>
  "weighted_mean w M r =
     fold (\<lambda>i m. vadd m (smul (w ! i) (M ! i))) [0..<2 * n_aug_' + 1] (zero_vec r)"

definition normalize_at :: "nat \<Rightarrow> vec \<Rightarrow> vec" where
  \<comment> \<open>the two \<^verbatim>\<open>while\<close> loops on component \<open>k\<close> of a difference vector\<close>
  "normalize_at k d = d[k := normalize_angle (d ! k)]"

definition PredictMeanAndCovariance :: "ukf \<Rightarrow> ukf" where
  "PredictMeanAndCovariance s =
     (let x = weighted_mean (weights_' s) (Xsig_pred_' s) n_x_';
          P = fold (\<lambda>i P.
                 let x_diff = vsub (Xsig_pred_' s ! i) x;
                     x_diff = normalize_at 3 x_diff
                 in madd P (outer (smul (weights_' s ! i) x_diff) x_diff))
               [0..<2 * n_aug_' + 1] (zero_mat n_x_' n_x_')
      in s \<lparr> x_' := x, P_' := P \<rparr>)"

text \<open>\<^verbatim>\<open>Prediction\<close> (lines 184-194).\<close>

definition Prediction :: "real \<Rightarrow> ukf \<Rightarrow> ukf fp" where
  "Prediction delta_t s =
     (case GenerateAugmentedSigmaPoints s of
        Inl e \<Rightarrow> Inl e
      | Finite s \<Rightarrow> Finite (PredictMeanAndCovariance (SigmaPointPrediction delta_t s)))"

text \<open>
  \<^verbatim>\<open>PredictRadarMeasurement\<close> (lines 308-363). \<open>radar_column\<close> is the body of the
  first loop for one predicted sigma point: the source divides by
  \<^verbatim>\<open>sqrt(p_x * p_x + p_y * p_y)\<close> with no test of the divisor. Whether that divisor is
  zero is decided on doubles, where a square can underflow: the products \<^verbatim>\<open>p_x * p_x\<close>
  and \<^verbatim>\<open>p_y * p_y\<close> are not negative, so their sum, and its square root, is zero exactly
  when both products are rounded to zero (\<open>square_is_zero\<close>). The division is then by
  zero and the range rate is an infinity or a NaN. The values of a finite column are
  those of exact arithmetic.
\<close>

definition square_is_zero :: "real \<Rightarrow> bool" where
  \<comment> \<open>the double \<^verbatim>\<open>p * p\<close> is \<open>0.0\<close>\<close>
  "square_is_zero p \<longleftrightarrow> nearest_double (p * p) 0"

definition radar_column :: "vec \<Rightarrow> vec fp" where
  "radar_column c =
     (let p_x = c ! 0;
          p_y = c ! 1;
          v = c ! 2;
          yaw = c ! 3;
          v1 = cos yaw * v;
          v2 = sin yaw * v
      in if square_is_zero p_x \<and> square_is_zero p_y then NonFinite
         else Finite [sqrt (p_x * p_x + p_y * p_y),
                      atan2 p_y p_x,
                      (p_x * v1 + p_y * v2) / sqrt (p_x * p_x + p_y * p_y)])"

definition measurement_covariance :: "vec \<Rightarrow> mat \<Rightarrow> vec \<Rightarrow> (vec \<Rightarrow> vec) \<Rightarrow> nat \<Rightarrow> mat" where
  \<comment> \<open>\<^verbatim>\<open>S.fill(0.0); for i: z_diff = Zsig.col(i) - z_pred; (normalization;)
      S = S + weights_(i) * z_diff * z_diff.transpose()\<close>\<close>
  "measurement_covariance w Zsig z_pred wrap n =
     fold (\<lambda>i S.
        let z_diff = vsub (Zsig ! i) z_pred;
            z_diff = wrap z_diff
        in madd S (outer (smul (w ! i) z_diff) z_diff))
      [0..<2 * n_aug_' + 1] (zero_mat n n)"

definition PredictRadarMeasurement :: "ukf \<Rightarrow> ukf fp" where
  "PredictRadarMeasurement s =
     (case all_columns (map (\<lambda>i. radar_column (Xsig_pred_' s ! i)) [0..<2 * n_aug_' + 1]) of
        Inl e \<Rightarrow> Inl e
      | Finite Zsig \<Rightarrow>
          (let z_pred = weighted_mean (weights_' s) Zsig n_z_radar_';
               S = measurement_covariance (weights_' s) Zsig z_pred (normalize_at 1) n_z_radar_';
               R = [[std_radr_' s * std_radr_' s, 0, 0],
                    [0, std_radphi_' s * std_radphi_' s, 0],
                    [0, 0, std_radrd_' s * std_radrd_' s]]
           in Finite (s \<lparr> Zsig_radar := Zsig, z_pred_r_' := z_pred, S_r_' := madd S R \<rparr>)))"

text \<open>\<^verbatim>\<open>PredictLidarMeasurement\<close> (lines 365-404).\<close>

definition PredictLidarMeasurement :: "ukf \<Rightarrow> ukf" where
  "PredictLidarMeasurement s =
     (let Zsig = map (\<lambda>i. [Xsig_pred_' s ! i ! 0, Xsig_pred_' s ! i ! 1]) [0..<2 * n_aug_' + 1];
          z_pred = weighted_mean (weights_' s) Zsig n_z_lidar_';
          S = measurement_covariance (weights_' s) Zsig z_pred (\<lambda>z_diff. z_diff) n_z_lidar_';
          R = [[std_laspx_' s * std_laspx_' s, 0],
               [0, std_laspy_' s * std_laspy_' s]]
      in s \<lparr> Zsig_lidar := Zsig, z_pred_l_' := z_pred, S_l_' := madd S R \<rparr>)"

text \<open>
  \<^verbatim>\<open>UpdateLidar\<close> (lines 405-443). \<open>lidar_Tc\<close> is the loop of lines 421-432: the state
  difference is used as it is.
\<close>

definition lidar_Tc :: "ukf \<Rightarrow> mat" where
  "lidar_Tc s =
     fold (\<lambda>i Tc.
        let z_diff = vsub (Zsig_lidar s ! i) (z_pred_l_' s);
            x_diff = vsub (Xsig_pred_' s ! i) (x_' s)
        in madd Tc (outer (smul (weights_' s ! i) x_diff) z_diff))
      [0..<2 * n_aug_' + 1] (zero_mat n_x_' n_z_lidar_')"

definition UpdateLidar :: "MeasurementPackage \<Rightarrow> ukf \<Rightarrow> ukf fp" where
  "UpdateLidar meas_package s =
     (let z = [raw_measurements_' meas_package ! 0, raw_measurements_' meas_package ! 1];
          Tc = lidar_Tc s
      in if length (raw_measurements_' meas_package) < 2 then OutOfRange
         else case inverse_mat (S_l_' s) of
           Inl e \<Rightarrow> Inl e
         | Finite S_inv \<Rightarrow>
             (let K = mat_mul Tc S_inv;
                  z_diff = vsub z (z_pred_l_' s)
              in Finite (s
                   \<lparr> x_' := vadd (x_' s) (mat_vec K z_diff),
                     P_' := msub (P_' s) (mat_mul (mat_mul K (S_l_' s)) (transpose_mat K)) \<rparr>)))"

text \<open>
  \<^verbatim>\<open>UpdateRadar\<close> (lines 445-516). \<open>radar_Tc\<close> is the loop of lines 465-495, with the
  bearing of the residual and the heading of the state difference normalized.
\<close>

definition radar_Tc :: "ukf \<Rightarrow> mat" where
  "radar_Tc s =
     fold (\<lambda>i Tc.
        let z_diff = vsub (Zsig_radar s ! i) (z_pred_r_' s);
            z_diff = normalize_at 1 z_diff;
            x_diff = vsub (Xsig_pred_' s ! i) (x_' s);
            x_diff = normalize_at 3 x_diff
        in madd Tc (outer (smul (weights_' s ! i) x_diff) z_diff))
      [0..<2 * n_aug_' + 1] (zero_mat n_x_' n_z_radar_')"

definition UpdateRadar :: "MeasurementPackage \<Rightarrow> ukf \<Rightarrow> ukf fp" where
  "UpdateRadar meas_package s =
     (let z = [raw_measurements_' meas_package ! 0,
               raw_measurements_' meas_package ! 1,
               raw_measurements_' meas_package ! 2];
          Tc = radar_Tc s
      in if length (raw_measurements_' meas_package) < 3 then OutOfRange
         else case inverse_mat (S_r_' s) of
           Inl e \<Rightarrow> Inl e
         | Finite S_inv \<Rightarrow>
             (let K = mat_mul Tc S_inv;
                  z_diff = vsub z (z_pred_r_' s);
                  z_diff = normalize_at 1 z_diff
              in Finite (s
                   \<lparr> x_' := vadd (x_' s) (mat_vec K z_diff),
                     P_' := msub (P_' s) (mat_mul (mat_mul K (S_r_' s)) (transpose_mat K)) \<rparr>)))"

text \<open>
  \<^verbatim>\<open>ProcessMeasurement\<close> (lines 109-139). \<open>elapsed_seconds\<close> is the expression of
  line 122; the timestamps are \<^verbatim>\<open>long long\<close> microseconds, taken as integers (their
  difference is assumed not to overflow).
\<close>

definition elapsed_seconds :: "MeasurementPackage \<Rightarrow> ukf \<Rightarrow> real" where
  "elapsed_seconds meas_package s =
     real_of_int (timestamp_' meas_package - time_us_' s) / 1000000.0"

definition ProcessMeasurement :: "MeasurementPackage \<Rightarrow> ukf \<Rightarrow> ukf fp" where
  "ProcessMeasurement meas_package s =
     (if \<not> is_initialized_' s then InitializeUKF meas_package s
      else
        (let delta_t = elapsed_seconds meas_package s;
             s = s \<lparr> time_us_' := timestamp_' meas_package \<rparr>
         in case Prediction delta_t s of
              Inl e \<Rightarrow> Inl e
            | Finite s \<Rightarrow>
                (case sensor_type_' meas_package of
                   LASER \<Rightarrow> UpdateLidar meas_package (PredictLidarMeasurement s)
                 | RADAR \<Rightarrow>
                     (case PredictRadarMeasurement s of
                        Inl e \<Rightarrow> Inl e
                      | Finite s \<Rightarrow> UpdateRadar meas_package s))))"

text \<open>
  \<^verbatim>\<open>CalculateNIS\<close> (lines 518-522) is called by nothing in the file and changes no
  field; it is not modelled.
\<close>

text \<open>
  The caller constructs a filter and hands it the packages one after the other.
  \<open>process_all ms s\<close> is the filter after the packages \<open>ms\<close>; it stops at the first call
  that leaves no finite state. The states a filter can be in are the values of
  \<open>process_all ms (UKF mem)\<close>.
\<close>

fun process_all :: "MeasurementPackage list \<Rightarrow> ukf \<Rightarrow> ukf fp" where
  "process_all [] s = Finite s"
| "process_all (m # ms) s =
     (case ProcessMeasurement m s of
        Inl e \<Rightarrow> Inl e
      | Finite s' \<Rightarrow> process_all ms s')"

subsection \<open>The specification's formulas and concrete objects\<close>

text \<open>
  The CTRV step as the specification words it (section 4.2): the position by the
  general branch when \<open>\<bar>yaw_rate\<bar> > 1e-3\<close> and by the singularity guard otherwise, speed,
  heading and yaw rate carried over, then the process-noise terms added.
\<close>

definition ctrv_spec ::
  "real \<Rightarrow> real \<Rightarrow> real \<Rightarrow> real \<Rightarrow> real \<Rightarrow> real \<Rightarrow> real \<Rightarrow> real \<Rightarrow> vec" where
  "ctrv_spec dt px py v yaw yaw_rate nu_a nu_yawdd =
     [ (if \<bar>yaw_rate\<bar> > 1 / 1000
        then px + (v / yaw_rate) * (sin (yaw + yaw_rate * dt) - sin yaw)
        else px + v * dt * cos yaw) + (1 / 2) * nu_a * dt\<^sup>2 * cos yaw,
       (if \<bar>yaw_rate\<bar> > 1 / 1000
        then py + (v / yaw_rate) * (cos yaw - cos (yaw + yaw_rate * dt))
        else py + v * dt * sin yaw) + (1 / 2) * nu_a * dt\<^sup>2 * sin yaw,
       v + nu_a * dt,
       yaw + yaw_rate * dt + (1 / 2) * nu_yawdd * dt\<^sup>2,
       yaw_rate + nu_yawdd * dt ]"

text \<open>
  The cross-correlation as the specification words it (section 4.4): the weighted sum
  of the outer products of the state deviation, normalized at the heading index 3, and
  the measurement deviation, normalized at the sensor's angular index when it has one.
\<close>

definition Tc_spec :: "vec \<Rightarrow> mat \<Rightarrow> vec \<Rightarrow> mat \<Rightarrow> vec \<Rightarrow> nat option \<Rightarrow> mat" where
  "Tc_spec w Xsig x Zsig z_pred angular =
     fold (\<lambda>i Tc.
        let state_deviation = normalize_at 3 (vsub (Xsig ! i) x);
            measurement_deviation =
              (case angular of
                 None \<Rightarrow> vsub (Zsig ! i) z_pred
               | Some k \<Rightarrow> normalize_at k (vsub (Zsig ! i) z_pred))
        in madd Tc (outer (smul (w ! i) state_deviation) measurement_deviation))
      [0..<15] (zero_mat 5 (length z_pred))"

text \<open>The covariance and the weights that \<^verbatim>\<open>InitializeUKF\<close> leaves in a new filter.\<close>

definition prior_covariance :: mat where
  "prior_covariance =
     [[1, 0, 0, 0, 0],
      [0, 1, 0, 0, 0],
      [0, 0, 1, 0, 0],
      [0, 0, 0, 1 / 2, 0],
      [0, 0, 0, 0, 1 / 2]]"

definition initial_weights :: vec where
  "initial_weights = (- 2 / 5) # replicate 14 (1 / 10)"

text \<open>An object whose memory is all zero, for the concrete runs below.\<close>

definition zero_memory :: ukf where
  "zero_memory =
     \<lparr> is_initialized_' = False, use_laser_' = False, use_radar_' = False,
       x_' = zero_vec 5, P_' = zero_mat 5 5, time_us_' = 0,
       std_a_' = 0, std_yawdd_' = 0, std_laspx_' = 0, std_laspy_' = 0,
       std_radr_' = 0, std_radphi_' = 0, std_radrd_' = 0,
       Xsig_aug_' = zero_mat 7 15, Xsig_pred_' = zero_mat 5 15, weights_' = zero_vec 15,
       lambda_' = 0, z_pred_r_' = zero_vec 3, S_r_' = zero_mat 3 3,
       Zsig_radar = zero_mat 3 15, Zsig_lidar = zero_mat 2 15,
       z_pred_l_' = zero_vec 2, S_l_' = zero_mat 2 2 \<rparr>"

definition example_sigma :: ukf where
  \<comment> \<open>a straight-moving and a turning augmented sigma point, both at speed 1\<close>
  "example_sigma = zero_memory
     \<lparr> Xsig_aug_' :=
         [0, 0, 1, 0, 0, 0, 0] # [0, 0, 1, 0, 1, 0, 0] # replicate 13 [0, 0, 0, 0, 0, 0, 0] \<rparr>"

definition tracking :: "vec \<Rightarrow> int \<Rightarrow> ukf" where
  \<comment> \<open>a constructed and initialized filter whose state is \<open>x\<close> at time \<open>t\<close>; with
      \<open>x = [px, py, 0, 0, 0]\<close> it is the filter after a first measurement at \<open>(px, py)\<close>\<close>
  "tracking x t = (UKF zero_memory)
     \<lparr> is_initialized_' := True, time_us_' := t, P_' := prior_covariance,
       x_' := x, weights_' := initial_weights \<rparr>"

definition set_flags :: "bool \<Rightarrow> bool \<Rightarrow> ukf \<Rightarrow> ukf" where
  \<comment> \<open>the caller assigns the two public flags\<close>
  "set_flags a b s = s \<lparr> use_laser_' := a, use_radar_' := b \<rparr>"

section \<open>Properties\<close>

subsection \<open>Evaluating the model\<close>

lemmas mat_defs = vadd_def vsub_def smul_def madd_def msub_def zero_vec_def zero_mat_def
  outer_def nrows_def mat_vec_def mat_mul_def transpose_mat_def

lemmas dim_defs = n_x_'_def n_aug_'_def n_z_radar_'_def n_z_lidar_'_def

lemma upt_0_15: "[0..<15] = [0, 1, 2, 3, 4, 5, 6, 7, 8, 9, 10, 11, 12, 13, 14]"
  by code_simp

lemma upt_0_7: "[0..<7] = [0, 1, 2, 3, 4, 5, 6]"
  by code_simp

lemma upt_small:
  "[0..<1] = [0]" "[0..<2] = [0, 1]" "[0..<3] = [0, 1, 2]" "[0..<4] = [0, 1, 2, 3]"
  "[0..<5] = [0, 1, 2, 3, 4]" "[0..<6] = [0, 1, 2, 3, 4, 5]"
  by code_simp+

lemma replicate_2: "replicate 2 x = [x, x]"
  by (simp add: numeral_2_eq_2)

lemmas eval_simps = Let_def upt_0_15 upt_0_7 mat_defs dim_defs replicate_2 eval_nat_numeral

lemma sqrt_9_4: "sqrt (9 / 4) = 3 / 2"
  by (rule real_sqrt_unique) (simp_all add: power2_eq_square)

subsection \<open>Angle normalization\<close>








lemma normalize_angle_id: "- pi \<le> a \<Longrightarrow> a \<le> pi \<Longrightarrow> normalize_angle a = a"
  by (simp add: normalize_angle_def wrap_down.simps wrap_up.simps)








subsection \<open>Rounding to a nearest double\<close>

lemma is_double_0: "is_double 0"
  unfolding is_double_def by (rule exI [of _ 0], rule exI [of _ 0]) simp

lemma is_double_least: "is_double (1 / 2 ^ 1074)" "is_double (- (1 / 2 ^ 1074))"
  unfolding is_double_def
  by (rule exI [of _ 1], rule exI [of _ 1074], simp)
    (rule exI [of _ "- 1"], rule exI [of _ 1074], simp)

lemma double_ge_least:
  assumes d: "is_double d" and nz: "d \<noteq> 0"
  shows "1 / 2 ^ 1074 \<le> \<bar>d\<bar>"
proof -
  from d obtain m :: int and k :: nat where
    k: "(k \<le> 971 \<and> d = of_int m * 2 ^ k) \<or> (k \<le> 1074 \<and> d = of_int m / 2 ^ k)"
    unfolding is_double_def by blast
  from k nz have "m \<noteq> 0" by auto
  then have one: "1 \<le> \<bar>real_of_int m\<bar>"
    by (metis abs_zero dual_order.refl linorder_not_less of_int_abs of_int_eq_0_iff of_int_le_iff of_int_1 zabs_def zero_less_abs_iff int_one_le_iff_zero_less)
  from k show ?thesis
  proof
    assume a: "k \<le> 971 \<and> d = of_int m * 2 ^ k"
    have "(1::real) \<le> 2 ^ k" by simp
    with one have "1 * 1 \<le> \<bar>real_of_int m\<bar> * 2 ^ k"
      by (intro mult_mono) simp_all
    moreover have "(1::real) / 2 ^ 1074 \<le> 1" by simp
    ultimately show ?thesis using a by (simp add: abs_mult)
  next
    assume a: "k \<le> 1074 \<and> d = of_int m / 2 ^ k"
    then have "(2::real) ^ k \<le> 2 ^ 1074"
      by (intro power_increasing) simp_all
    then have "(1::real) / 2 ^ 1074 \<le> 1 / 2 ^ k"
      by (intro divide_left_mono) simp_all
    also have "\<dots> \<le> \<bar>real_of_int m\<bar> / 2 ^ k"
      using one by (intro divide_right_mono) simp_all
    finally show ?thesis using a by (simp add: abs_divide)
  qed
qed

lemma half_least: "(1::real) / 2 ^ 1075 = (1 / 2 ^ 1074) / 2"
  by simp

lemma nearest_double_0_iff: "nearest_double x 0 \<longleftrightarrow> \<bar>x\<bar> \<le> 1 / 2 ^ 1075"
proof -
  define e :: real where "e = 1 / 2 ^ 1074"
  have half: "1 / 2 ^ 1075 = e / 2"
    by (simp only: e_def half_least)
  have least: "is_double e" "is_double (- e)"
    using is_double_least by (simp_all only: e_def)
  have pos: "0 < e"
    by (simp add: e_def)
  have ge: "e \<le> \<bar>d\<bar>" if "is_double d" "d \<noteq> 0" for d
    using double_ge_least [OF that] by (simp only: e_def)
  show ?thesis
  proof
    assume n: "nearest_double x 0"
    then have "\<bar>x - 0\<bar> \<le> \<bar>x - e\<bar>" "\<bar>x - 0\<bar> \<le> \<bar>x - (- e)\<bar>"
      using least unfolding nearest_double_def by blast+
    with pos have "\<bar>x\<bar> \<le> e / 2"
      by linarith
    then show "\<bar>x\<bar> \<le> 1 / 2 ^ 1075"
      by (simp only: half)
  next
    assume a: "\<bar>x\<bar> \<le> 1 / 2 ^ 1075"
    then have h: "\<bar>x\<bar> \<le> e / 2"
      by (simp only: half)
    have "\<bar>x - 0\<bar> \<le> \<bar>x - d'\<bar>" if d': "is_double d'" for d'
    proof (cases "d' = 0")
      case True
      then show ?thesis by simp
    next
      case False
      from ge [OF d' False] h show ?thesis
        by linarith
    qed
    then show "nearest_double x 0"
      using is_double_0 unfolding nearest_double_def by blast
  qed
qed

lemma square_is_zero_iff: "square_is_zero p \<longleftrightarrow> p * p \<le> 1 / 2 ^ 1075"
  by (simp add: square_is_zero_def nearest_double_0_iff del: power_numeral)

lemma nearest_double_self:
  assumes "is_double x" and "nearest_double x d"
  shows "d = x"
proof -
  from assms have "\<bar>x - d\<bar> \<le> \<bar>x - x\<bar>"
    unfolding nearest_double_def by blast
  then show ?thesis by simp
qed

lemma nearest_double_of_double: "is_double x \<Longrightarrow> nearest_double x x"
  by (simp add: nearest_double_def)

lemma is_double_5: "is_double 5"
  unfolding is_double_def by (rule exI [of _ 5], rule exI [of _ 0]) simp

text \<open>A double of magnitude at least \<open>2\<^sup>-\<^sup>n\<close> is a multiple of \<open>2\<^sup>-\<^sup>n\<^sup>-\<^sup>5\<^sup>2\<close>.\<close>

lemma double_grid:
  assumes d: "is_double d" and big: "1 / 2 ^ n \<le> \<bar>d\<bar>"
  shows "\<exists>j::int. d = of_int j / 2 ^ (n + 52)"
proof -
  from d obtain m :: int and k :: nat where m: "\<bar>m\<bar> < 2 ^ 53"
    and k: "(k \<le> 971 \<and> d = of_int m * 2 ^ k) \<or> (k \<le> 1074 \<and> d = of_int m / 2 ^ k)"
    unfolding is_double_def by blast
  have small: "\<bar>real_of_int m\<bar> < 2 ^ 53"
    using m by (metis of_int_abs of_int_less_iff of_int_numeral of_int_power)
  from k show ?thesis
  proof
    assume a: "k \<le> 971 \<and> d = of_int m * 2 ^ k"
    have "d = of_int (m * 2 ^ (k + (n + 52))) / 2 ^ (n + 52)"
      using a by (simp add: power_add)
    then show ?thesis ..
  next
    assume a: "k \<le> 1074 \<and> d = of_int m / 2 ^ k"
    show ?thesis
    proof (cases "k \<le> n + 52")
      case True
      then obtain i where i: "n + 52 = k + i"
        using le_Suc_ex by blast
      have "d = of_int (m * 2 ^ i) / 2 ^ (n + 52)"
        using a by (simp add: i power_add)
      then show ?thesis ..
    next
      case False
      then obtain i where i: "k = n + 53 + i"
        using le_Suc_ex [of "n + 53" k] by auto
      have "(2::real) ^ (n + 53) \<le> 2 ^ k"
        by (intro power_increasing) (simp_all add: i)
      then have "\<bar>real_of_int m\<bar> / 2 ^ k \<le> \<bar>real_of_int m\<bar> / 2 ^ (n + 53)"
        by (intro divide_left_mono) simp_all
      also have "\<dots> < 2 ^ 53 / 2 ^ (n + 53)"
        using small by (intro divide_strict_right_mono) simp_all
      also have "\<dots> = 1 / 2 ^ n"
        by (simp add: power_add)
      finally have "\<bar>d\<bar> < 1 / 2 ^ n"
        using a by (simp add: abs_divide)
      with big show ?thesis by simp
    qed
  qed
qed

text \<open>
  Rounding to nearest, read off the grid: when \<open>x\<close> lies within \<open>2/5\<close> of a grid step
  of the grid point \<open>N \<cdot> 2\<^sup>-\<^sup>n\<^sup>-\<^sup>5\<^sup>2\<close>, that point is the one double nearest to \<open>x\<close>.
\<close>

lemma nearest_double_grid:
  fixes x :: real and N :: int and n :: nat
  assumes N: "\<bar>N\<bar> < 2 ^ 53" and n: "n + 52 \<le> 1074"
    and close: "\<bar>x * 2 ^ (n + 52) - of_int N\<bar> \<le> 2 / 5"
    and big: "1 / 2 ^ n + 1 / 2 ^ (n + 52) \<le> \<bar>x\<bar>"
  shows "nearest_double x d \<longleftrightarrow> d = of_int N / 2 ^ (n + 52)"
proof -
  define g :: real where "g = 2 ^ (n + 52)"
  have g: "0 < g" by (simp add: g_def)
  have dist: "\<bar>x - of_int j / g\<bar> = \<bar>x * g - of_int j\<bar> / g" for j :: int
  proof -
    have "x - of_int j / g = (x * g - of_int j) / g"
      using g by (simp add: field_simps)
    then show ?thesis
      using g by (simp add: abs_divide)
  qed
  have N_double: "is_double (of_int N / g)"
    unfolding is_double_def g_def using N n by blast
  have close': "\<bar>x * g - of_int N\<bar> \<le> 2 / 5"
    using close by (simp only: g_def)
  have N_close: "\<bar>x - of_int N / g\<bar> \<le> (2 / 5) / g"
    unfolding dist using g by (intro divide_right_mono [OF close']) simp
  have below: "(2 / 5) / g \<le> 1 / g"
    using g by (intro divide_right_mono) simp_all
  have on_grid: "\<exists>j::int. d' = of_int j / g" if "is_double d'" "1 / 2 ^ n \<le> \<bar>d'\<bar>" for d'
    using double_grid [OF that] by (simp add: g_def)
  have N_nearest: "nearest_double x (of_int N / g)"
    unfolding nearest_double_def
  proof (intro conjI allI impI)
    show "is_double (of_int N / g)" by (rule N_double)
  next
    fix d' assume d': "is_double d'"
    show "\<bar>x - of_int N / g\<bar> \<le> \<bar>x - d'\<bar>"
    proof (cases "1 / 2 ^ n \<le> \<bar>d'\<bar>")
      case True
      from on_grid [OF d' True] obtain j :: int where j: "d' = of_int j / g"
        by blast
      show ?thesis
      proof (cases "j = N")
        case True
        with j show ?thesis by simp
      next
        case False
        then have "1 \<le> \<bar>real_of_int N - real_of_int j\<bar>"
          by linarith
        with close' have far: "2 / 5 \<le> \<bar>x * g - of_int j\<bar>"
          by linarith
        have "(2 / 5) / g \<le> \<bar>x * g - of_int j\<bar> / g"
          using g by (intro divide_right_mono [OF far]) simp
        with N_close show ?thesis
          unfolding j dist by linarith
      qed
    next
      case False
      with big have "1 / g \<le> \<bar>x - d'\<bar>"
        unfolding g_def by linarith
      with N_close below show ?thesis
        by linarith
    qed
  qed
  have unique: "d = of_int N / g" if near: "nearest_double x d"
  proof -
    from near N_double have d: "is_double d" and le: "\<bar>x - d\<bar> \<le> \<bar>x - of_int N / g\<bar>"
      unfolding nearest_double_def by blast+
    from le N_close below have "\<bar>x - d\<bar> \<le> 1 / g"
      by linarith
    with big have "1 / 2 ^ n \<le> \<bar>d\<bar>"
      unfolding g_def by linarith
    from on_grid [OF d this] obtain j :: int where j: "d = of_int j / g"
      by blast
    from le N_close have "\<bar>x * g - of_int j\<bar> / g \<le> (2 / 5) / g"
      unfolding j dist by linarith
    then have "\<bar>x * g - of_int j\<bar> \<le> 2 / 5"
      using g by (simp only: divide_le_cancel)
    with close' have "\<bar>real_of_int N - real_of_int j\<bar> < 1"
      by linarith
    then have "j = N"
      by linarith
    with j show ?thesis by simp
  qed
  from N_nearest unique show ?thesis
    unfolding g_def by blast
qed

lemma nearest_tenth: "nearest_double (1 / 10) d \<longleftrightarrow> d = 7205759403792794 / 2 ^ 56"
  using nearest_double_grid [of 7205759403792794 4 "1 / 10" d] by simp

lemma nearest_two_fifths:
  "nearest_double (- 2 / 5) d \<longleftrightarrow> d = - (7205759403792794 / 2 ^ 54)"
  using nearest_double_grid [of "- 7205759403792794" 2 "- 2 / 5" d] by simp

lemma nearest_5: "nearest_double 5 d \<longleftrightarrow> d = 5"
  using nearest_double_self [OF is_double_5] nearest_double_of_double [OF is_double_5] by blast

subsection \<open>Sigma-point propagation\<close>

lemma predict_column_spec:
  "predict_column dt c = ctrv_spec dt (c ! 0) (c ! 1) (c ! 2) (c ! 3) (c ! 4) (c ! 5) (c ! 6)"
  by (simp add: predict_column_def ctrv_spec_def Let_def power2_eq_square)

text \<open>
  Claim C7. For every augmented sigma point \<open>(px, py, v, yaw, yaw_rate, \<nu>_a, \<nu>_yawdd)\<close>
  (each of the 15 columns of \<^verbatim>\<open>Xsig_aug_\<close>) and every \<open>\<Delta>t\<close>, the predicted column is
  the CTRV step of the specification: the general branch exactly when
  \<open>\<bar>yaw_rate\<bar> > 1e-3\<close>, the singularity guard otherwise, \<open>v' = v\<close>,
  \<open>yaw' = yaw + yaw_rate \<cdot> \<Delta>t\<close>, \<open>yaw_rate' = yaw_rate\<close>, and then the process-noise
  additions.
\<close>

theorem SigmaPointPrediction_ctrv:
  "i < 2 * n_aug_' + 1 \<Longrightarrow>
   Xsig_pred_' (SigmaPointPrediction dt s) ! i =
     (let c = Xsig_aug_' s ! i
      in ctrv_spec dt (c ! 0) (c ! 1) (c ! 2) (c ! 3) (c ! 4) (c ! 5) (c ! 6))"
  by (simp add: SigmaPointPrediction_def predict_column_spec Let_def n_aug_'_def)

theorem SigmaPointPrediction_ctrv_witness:
  "0 < 2 * n_aug_' + 1 \<and> 1 < 2 * n_aug_' + 1
   \<and> Xsig_pred_' (SigmaPointPrediction 2 example_sigma) ! 0 = [2, 0, 1, 0, 0]
   \<and> Xsig_pred_' (SigmaPointPrediction pi example_sigma) ! 1 = [0, 2, 1, pi, 1]"
proof -
  have h0: "0 < 2 * n_aug_' + 1" and h1: "1 < 2 * n_aug_' + 1"
    by (simp_all add: n_aug_'_def)
  show ?thesis
    using h0 h1 SigmaPointPrediction_ctrv [OF h0, of 2 example_sigma]
      SigmaPointPrediction_ctrv [OF h1, of pi example_sigma]
    by (simp add: example_sigma_def ctrv_spec_def Let_def)
qed

subsection \<open>Initialization\<close>

lemma map_const_upt: "map (\<lambda>i. c) [m..<n] = replicate (n - m) c"
  by (simp add: map_replicate_const)

text \<open>
  Claim C8, as the code has it. For every valid construction of the weight vector at
  initialization (a measurement of at least two numbers and a divisor \<open>\<lambda> + n\<close> that is
  not zero, \<open>n = 7\<close>), \<^verbatim>\<open>InitializeUKF\<close> returns with 15 weights, weight 0 the quotient
  \<open>\<lambda> / (\<lambda> + n)\<close>, the other 14 the quotient \<open>1 / (2 (\<lambda> + n))\<close>, and in exact arithmetic
  these quotients sum to 1, whatever value \<open>\<lambda>\<close> has.
\<close>

theorem InitializeUKF_weights:
  "lambda_' s + 7 \<noteq> 0 \<Longrightarrow> 2 \<le> length (raw_measurements_' m) \<Longrightarrow>
   \<exists>s'. InitializeUKF m s = Finite s'
      \<and> length (weights_' s') = 15
      \<and> weights_' s' ! 0 = lambda_' s / (lambda_' s + 7)
      \<and> (\<forall>i. 1 \<le> i \<and> i < 15 \<longrightarrow> weights_' s' ! i = 1 / (2 * (lambda_' s + 7)))
      \<and> sum_list (weights_' s') = 1"
proof -
  assume nz: "lambda_' s + 7 \<noteq> 0" and len2: "2 \<le> length (raw_measurements_' m)"
  define w where
    "w = (lambda_' s / (lambda_' s + 7)) # map (\<lambda>i::nat. 0.5 / (7 + lambda_' s)) [1..<15]"
  have len: "length w = 15" by (simp add: w_def)
  have w0: "w ! 0 = lambda_' s / (lambda_' s + 7)" by (simp add: w_def)
  have wi: "w ! i = 1 / (2 * (lambda_' s + 7))" if "1 \<le> i" "i < 15" for i
  proof -
    from that obtain j where j: "i = Suc j" "j < 14" by (cases i) auto
    then show ?thesis by (simp add: w_def add.commute)
  qed
  have "sum_list (map (\<lambda>i::nat. 0.5 / (7 + lambda_' s)) [1..<15]) = 14 * (0.5 / (7 + lambda_' s))"
    by (simp add: sum_list_triv)
  also have "\<dots> = 7 / (lambda_' s + 7)"
    using nz by (simp add: field_simps)
  finally have "sum_list w = lambda_' s / (lambda_' s + 7) + 7 / (lambda_' s + 7)"
    by (simp add: w_def)
  also have "\<dots> = (lambda_' s + 7) / (lambda_' s + 7)"
    by (simp only: add_divide_distrib)
  also have "\<dots> = 1" using nz by simp
  finally have sum: "sum_list w = 1" .
  have "\<exists>s'. InitializeUKF m s = Finite s' \<and> weights_' s' = w"
    using nz len2
    by (cases "sensor_type_' m") (simp_all add: InitializeUKF_def Let_def n_aug_'_def w_def)
  then obtain s' where s': "InitializeUKF m s = Finite s'" "weights_' s' = w"
    by blast
  show ?thesis using s' len w0 wi sum by auto
qed

theorem InitializeUKF_weights_witness:
  "lambda_' (UKF zero_memory) + 7 \<noteq> 0
   \<and> 2 \<le> length (raw_measurements_'
          \<lparr> timestamp_' = 0, sensor_type_' = LASER, raw_measurements_' = [1, 2] \<rparr>)
   \<and> (\<exists>s'. InitializeUKF \<lparr> timestamp_' = 0, sensor_type_' = LASER, raw_measurements_' = [1, 2] \<rparr>
             (UKF zero_memory) = Finite s'
      \<and> length (weights_' s') = 15
      \<and> weights_' s' ! 0 = - 2 / 5
      \<and> (\<forall>i. 1 \<le> i \<and> i < 15 \<longrightarrow> weights_' s' ! i = 1 / 10)
      \<and> sum_list (weights_' s') = 1)"
proof -
  have nz: "lambda_' (UKF zero_memory) + 7 \<noteq> 0"
    by (simp add: UKF_def n_x_'_def)
  have len: "2 \<le> length (raw_measurements_'
      \<lparr> timestamp_' = 0, sensor_type_' = LASER, raw_measurements_' = [1, 2] \<rparr>)"
    by simp
  have l: "lambda_' (UKF zero_memory) = - 2"
    by (simp add: UKF_def n_x_'_def)
  show ?thesis
    using nz InitializeUKF_weights [OF nz len]
    by (simp add: l)
qed

text \<open>
  The claim as stated fails: the weights the source stores are doubles, and the sum of
  the stored weights is not \<open>1\<close>. With the constructor's \<open>\<lambda> = -2\<close> the divisor \<open>\<lambda> + n = 5\<close>
  is exact, \<open>-2/5\<close> is rounded to \<open>-7205759403792794 \<cdot> 2\<^sup>-\<^sup>5\<^sup>4\<close> and \<open>1/10\<close> to
  \<open>7205759403792794 \<cdot> 2\<^sup>-\<^sup>5\<^sup>6\<close>; these are the only weights the loop can store, and
  their sum is \<open>1 + 2\<^sup>-\<^sup>5\<^sup>4\<close>.
\<close>

lemma weights_double_unique:
  "weights_double (- 2) w \<longleftrightarrow>
     w = - (7205759403792794 / 2 ^ 54) # replicate 14 (7205759403792794 / 2 ^ 56)"
proof
  assume w: "weights_double (- 2) w"
  then have len: "length w = 15"
    by (simp add: weights_double_def)
  from w obtain d where d: "nearest_double (- 2 + 7) d" "nearest_double (- 2 / d) (w ! 0)"
    unfolding weights_double_def by blast
  from d(1) have "d = 5"
    by (simp add: nearest_5)
  with d(2) have w0: "w ! 0 = - (7205759403792794 / 2 ^ 54)"
    by (simp only: nearest_two_fifths)
  have wi: "w ! i = 7205759403792794 / 2 ^ 56" if "1 \<le> i" "i < 15" for i
  proof -
    from w that obtain d where d: "nearest_double (7 + - 2) d" "nearest_double (0.5 / d) (w ! i)"
      unfolding weights_double_def by blast
    from d(1) have "d = 5"
      by (simp add: nearest_5)
    with d(2) have "nearest_double (1 / 10) (w ! i)"
      by simp
    then show ?thesis
      by (simp only: nearest_tenth)
  qed
  show "w = - (7205759403792794 / 2 ^ 54) # replicate 14 (7205759403792794 / 2 ^ 56)"
  proof (rule nth_equalityI)
    show "length w = length (- (7205759403792794 / 2 ^ 54) # replicate 14 (7205759403792794 / 2 ^ 56))"
      using len by simp
  next
    fix i assume "i < length w"
    with len have i: "i < 15" by simp
    show "w ! i = (- (7205759403792794 / 2 ^ 54) # replicate 14 (7205759403792794 / 2 ^ 56)) ! i"
    proof (cases i)
      case 0
      with w0 show ?thesis by simp
    next
      case (Suc j)
      with i wi [of i] show ?thesis by simp
    qed
  qed
next
  assume w: "w = - (7205759403792794 / 2 ^ 54) # replicate 14 (7205759403792794 / 2 ^ 56)"
  have five: "nearest_double (- 2 + 7) 5" "nearest_double (7 + - 2) 5"
    by (simp_all add: nearest_5)
  have w0: "nearest_double (- 2 / 5) (w ! 0)"
    unfolding nearest_two_fifths by (simp add: w)
  have wi: "nearest_double (0.5 / 5) (w ! i)" if "1 \<le> i" "i < 15" for i
  proof -
    from that obtain j where "i = Suc j" "j < 14" by (cases i) auto
    then have "w ! i = 7205759403792794 / 2 ^ 56"
      by (simp add: w)
    moreover have "(0.5::real) / 5 = 1 / 10" by simp
    ultimately show ?thesis
      by (simp only: nearest_tenth)
  qed
  show "weights_double (- 2) w"
    unfolding weights_double_def using five w0 wi by (auto simp: w)
qed

lemma stored_weights_sum:
  "sum_list (- (7205759403792794 / 2 ^ 54) # replicate 14 (7205759403792794 / 2 ^ 56))
     = 1 + 1 / (2::real) ^ 54"
  by (simp add: sum_list_replicate)

theorem stored_weights_counterexample:
  "lambda_' (UKF zero_memory) = - 2
   \<and> (\<exists>w. weights_double (- 2) w)
   \<and> \<not> (\<exists>w. weights_double (- 2) w \<and> sum_list w = 1)"
  by (simp add: weights_double_unique sum_list_replicate UKF_def n_x_'_def)

text \<open>
  Claim C6. On the first measurement of a newly constructed filter: a LIDAR package
  \<open>[px, py]\<close> gives \<open>x = [px, py, 0, 0, 0]\<close> and \<open>P\<close> the fixed prior; a RADAR package
  \<open>[\<rho>, \<phi>, \<rho>\<^sub>d\<^sub>o\<^sub>t]\<close> gives \<open>x = [\<rho> cos \<phi>, \<rho> sin \<phi>, 0, 0, 0]\<close>, the position by the
  polar-to-Cartesian conversion. In particular LIDAR \<open>[1.0, 2.0]\<close> gives
  \<open>x = [1, 2, 0, 0, 0]\<close> and RADAR \<open>[5.0, 0.0, 0.0]\<close> gives \<open>x = [5, 0, 0, 0, 0]\<close>. In
  every case the call changes nothing but the initialization flag, the time, \<open>P\<close>, \<open>x\<close>
  and the weights: no prediction and no update runs, the sigma points and the
  measurement covariances are what they were.
\<close>

theorem first_measurement_initializes:
  "ProcessMeasurement
       \<lparr> timestamp_' = t, sensor_type_' = LASER, raw_measurements_' = [px, py] \<rparr> (UKF mem)
     = Finite ((UKF mem)
         \<lparr> is_initialized_' := True, time_us_' := t, P_' := prior_covariance,
           x_' := [px, py, 0, 0, 0], weights_' := initial_weights \<rparr>)
   \<and> ProcessMeasurement
       \<lparr> timestamp_' = t, sensor_type_' = RADAR, raw_measurements_' = [rho, phi, rho_dot] \<rparr>
       (UKF mem)
     = Finite ((UKF mem)
         \<lparr> is_initialized_' := True, time_us_' := t, P_' := prior_covariance,
           x_' := [rho * cos phi, rho * sin phi, 0, 0, 0], weights_' := initial_weights \<rparr>)
   \<and> ProcessMeasurement
       \<lparr> timestamp_' = t, sensor_type_' = LASER, raw_measurements_' = [1.0, 2.0] \<rparr> (UKF mem)
     = Finite ((UKF mem)
         \<lparr> is_initialized_' := True, time_us_' := t, P_' := prior_covariance,
           x_' := [1, 2, 0, 0, 0], weights_' := initial_weights \<rparr>)
   \<and> ProcessMeasurement
       \<lparr> timestamp_' = t, sensor_type_' = RADAR, raw_measurements_' = [5.0, 0.0, 0.0] \<rparr> (UKF mem)
     = Finite ((UKF mem)
         \<lparr> is_initialized_' := True, time_us_' := t, P_' := prior_covariance,
           x_' := [5, 0, 0, 0, 0], weights_' := initial_weights \<rparr>)"
  by (simp add: ProcessMeasurement_def InitializeUKF_def UKF_def Let_def n_aug_'_def n_x_'_def
      prior_covariance_def initial_weights_def map_const_upt mult.commute)

text \<open>
  \<open>tracking [px, py, 0, 0, 0] t\<close> is the filter that a first LIDAR package \<open>[px, py]\<close>
  stamped \<open>t\<close> leaves, when the memory the constructor found was zero.
\<close>

lemma first_package:
  "ProcessMeasurement
       \<lparr> timestamp_' = t, sensor_type_' = LASER, raw_measurements_' = [px, py] \<rparr>
       (UKF zero_memory)
     = Finite (tracking [px, py, 0, 0, 0] t)"
  by (simp add: ProcessMeasurement_def InitializeUKF_def UKF_def Let_def n_aug_'_def n_x_'_def
      prior_covariance_def initial_weights_def map_const_upt tracking_def)

subsection \<open>How the stages hand the fields on\<close>

lemma GenerateAugmentedSigmaPoints_frame:
  assumes "GenerateAugmentedSigmaPoints s = Finite s1"
  shows "Xsig_aug_' s1 ! 0 = x_' s @ [0, 0]" "x_' s1 = x_' s" "time_us_' s1 = time_us_' s"
    "weights_' s1 = weights_' s"
  using assms
  by (auto simp: GenerateAugmentedSigmaPoints_def augmented_mean_def Let_def zero_vec_def
      dim_defs replicate_2 split: if_splits)

lemma Prediction_frame:
  assumes "Prediction dt s = Finite s3"
  shows "Xsig_aug_' s3 ! 0 = x_' s @ [0, 0]" "time_us_' s3 = time_us_' s"
    "Xsig_pred_' s3 = map (\<lambda>i. predict_column dt (Xsig_aug_' s3 ! i)) [0..<15]"
    "x_' s3 = weighted_mean (weights_' s) (Xsig_pred_' s3) n_x_'"
  using assms
  by (auto simp: Prediction_def PredictMeanAndCovariance_def SigmaPointPrediction_def Let_def
      dim_defs dest: GenerateAugmentedSigmaPoints_frame split: sum.splits)

lemma Prediction_Finite:
  assumes "0 \<le> lambda_' s + 7"
  shows "\<exists>s'. Prediction dt s = Finite s'"
  using assms by (simp add: Prediction_def GenerateAugmentedSigmaPoints_def Let_def dim_defs)

lemma SigmaPointPrediction_fields:
  "Xsig_pred_' (SigmaPointPrediction dt s) =
     map (\<lambda>i. predict_column dt (Xsig_aug_' s ! i)) [0..<2 * n_aug_' + 1]"
  "weights_' (SigmaPointPrediction dt s) = weights_' s"
  "std_laspx_' (SigmaPointPrediction dt s) = std_laspx_' s"
  "std_laspy_' (SigmaPointPrediction dt s) = std_laspy_' s"
  by (simp_all add: SigmaPointPrediction_def)

lemma PredictMeanAndCovariance_fields:
  "x_' (PredictMeanAndCovariance s) = weighted_mean (weights_' s) (Xsig_pred_' s) n_x_'"
  "Xsig_pred_' (PredictMeanAndCovariance s) = Xsig_pred_' s"
  "weights_' (PredictMeanAndCovariance s) = weights_' s"
  "std_laspx_' (PredictMeanAndCovariance s) = std_laspx_' s"
  "std_laspy_' (PredictMeanAndCovariance s) = std_laspy_' s"
  by (simp_all add: PredictMeanAndCovariance_def Let_def)

lemma PredictLidarMeasurement_fields:
  "x_' (PredictLidarMeasurement s) = x_' s"
  "Xsig_pred_' (PredictLidarMeasurement s) = Xsig_pred_' s"
  "weights_' (PredictLidarMeasurement s) = weights_' s"
  "Zsig_lidar (PredictLidarMeasurement s) =
     map (\<lambda>i. [Xsig_pred_' s ! i ! 0, Xsig_pred_' s ! i ! 1]) [0..<2 * n_aug_' + 1]"
  "z_pred_l_' (PredictLidarMeasurement s) =
     weighted_mean (weights_' s)
       (map (\<lambda>i. [Xsig_pred_' s ! i ! 0, Xsig_pred_' s ! i ! 1]) [0..<2 * n_aug_' + 1]) n_z_lidar_'"
  by (simp_all add: PredictLidarMeasurement_def Let_def)

lemma PredictLidarMeasurement_S:
  "S_l_' (PredictLidarMeasurement s) =
     (let Zsig = map (\<lambda>i. [Xsig_pred_' s ! i ! 0, Xsig_pred_' s ! i ! 1]) [0..<2 * n_aug_' + 1];
          z_pred = weighted_mean (weights_' s) Zsig n_z_lidar_'
      in madd (measurement_covariance (weights_' s) Zsig z_pred (\<lambda>z_diff. z_diff) n_z_lidar_')
           [[std_laspx_' s * std_laspx_' s, 0], [0, std_laspy_' s * std_laspy_' s]])"
  by (simp add: PredictLidarMeasurement_def Let_def)

lemma PredictLidarMeasurement_frame:
  "Xsig_aug_' (PredictLidarMeasurement s) = Xsig_aug_' s"
  "time_us_' (PredictLidarMeasurement s) = time_us_' s"
  by (simp_all add: PredictLidarMeasurement_def Let_def)

lemma PredictRadarMeasurement_frame:
  assumes "PredictRadarMeasurement s = Finite s'"
  shows "Xsig_aug_' s' = Xsig_aug_' s" "Xsig_pred_' s' = Xsig_pred_' s" "time_us_' s' = time_us_' s"
  using assms by (auto simp: PredictRadarMeasurement_def Let_def split: sum.splits)

lemma UpdateLidar_frame:
  assumes "UpdateLidar m s = Finite s'"
  shows "Xsig_aug_' s' = Xsig_aug_' s" "Xsig_pred_' s' = Xsig_pred_' s" "time_us_' s' = time_us_' s"
  using assms by (auto simp: UpdateLidar_def Let_def split: sum.splits if_splits)

lemma UpdateRadar_frame:
  assumes "UpdateRadar m s = Finite s'"
  shows "Xsig_aug_' s' = Xsig_aug_' s" "Xsig_pred_' s' = Xsig_pred_' s" "time_us_' s' = time_us_' s"
  using assms by (auto simp: UpdateRadar_def Let_def split: sum.splits if_splits)

lemma UpdateLidar_x:
  "inverse_mat (S_l_' s) = Finite S_inv \<Longrightarrow> 2 \<le> length (raw_measurements_' m) \<Longrightarrow>
   \<exists>s'. UpdateLidar m s = Finite s' \<and>
     x_' s' = vadd (x_' s) (mat_vec (mat_mul (lidar_Tc s) S_inv)
        (vsub [raw_measurements_' m ! 0, raw_measurements_' m ! 1] (z_pred_l_' s)))
     \<and> Xsig_pred_' s' = Xsig_pred_' s"
  by (simp add: UpdateLidar_def Let_def)

lemma UpdateRadar_x:
  "inverse_mat (S_r_' s) = Finite S_inv \<Longrightarrow> 3 \<le> length (raw_measurements_' m) \<Longrightarrow>
   \<exists>s'. UpdateRadar m s = Finite s' \<and>
     x_' s' = vadd (x_' s) (mat_vec (mat_mul (radar_Tc s) S_inv)
        (normalize_at 1 (vsub [raw_measurements_' m ! 0, raw_measurements_' m ! 1,
                                raw_measurements_' m ! 2] (z_pred_r_' s))))"
  by (simp add: UpdateRadar_def Let_def)

lemma ProcessMeasurement_LASER:
  assumes "is_initialized_' s" and "sensor_type_' m = LASER"
    and "GenerateAugmentedSigmaPoints (s\<lparr>time_us_' := timestamp_' m\<rparr>) = Finite s1"
  shows "ProcessMeasurement m s =
     UpdateLidar m (PredictLidarMeasurement (PredictMeanAndCovariance
       (SigmaPointPrediction (elapsed_seconds m s) s1)))"
  using assms by (simp add: ProcessMeasurement_def Prediction_def Let_def)

text \<open>The two flags are written by the constructor and read by no member function.\<close>

lemma set_flags_stage:
  "InitializeUKF m (set_flags a b s) = map_sum id (set_flags a b) (InitializeUKF m s)"
  "GenerateAugmentedSigmaPoints (set_flags a b s) =
     map_sum id (set_flags a b) (GenerateAugmentedSigmaPoints s)"
  "SigmaPointPrediction dt (set_flags a b s) = set_flags a b (SigmaPointPrediction dt s)"
  "PredictMeanAndCovariance (set_flags a b s) = set_flags a b (PredictMeanAndCovariance s)"
  "PredictLidarMeasurement (set_flags a b s) = set_flags a b (PredictLidarMeasurement s)"
  "PredictRadarMeasurement (set_flags a b s) =
     map_sum id (set_flags a b) (PredictRadarMeasurement s)"
  "UpdateLidar m (set_flags a b s) = map_sum id (set_flags a b) (UpdateLidar m s)"
  "UpdateRadar m (set_flags a b s) = map_sum id (set_flags a b) (UpdateRadar m s)"
  by (simp_all add: set_flags_def InitializeUKF_def GenerateAugmentedSigmaPoints_def
      SigmaPointPrediction_def PredictMeanAndCovariance_def PredictLidarMeasurement_def
      PredictRadarMeasurement_def UpdateLidar_def UpdateRadar_def lidar_Tc_def radar_Tc_def
      augmented_mean_def augmented_covariance_def Let_def
      split: sum.splits SensorType.splits prod.splits)

lemma set_flags_fields:
  "is_initialized_' (set_flags a b s) = is_initialized_' s"
  "time_us_' (set_flags a b s) = time_us_' s"
  "x_' (set_flags a b s) = x_' s"
  "use_laser_' (set_flags a b s) = a"
  "use_radar_' (set_flags a b s) = b"
  "(set_flags a b s)\<lparr>time_us_' := t\<rparr> = set_flags a b (s\<lparr>time_us_' := t\<rparr>)"
  by (simp_all add: set_flags_def)

lemma flags_never_read:
  "ProcessMeasurement m (set_flags a b s) = map_sum id (set_flags a b) (ProcessMeasurement m s)"
  by (simp add: ProcessMeasurement_def Prediction_def elapsed_seconds_def Let_def
      set_flags_stage set_flags_fields split: sum.splits SensorType.splits)

subsection \<open>The inverse is an inverse\<close>

lemma inverse_mat_2:
  assumes "inverse_mat [[a, c], [b, d]] = Finite N"
  shows "mat_mul [[a, c], [b, d]] N = [[1, 0], [0, 1]]"
proof -
  define det where "det = a * d - b * c"
  from assms have nz: "det \<noteq> 0" and N: "N = [[d / det, - c / det], [- b / det, a / det]]"
    by (auto simp: det_def Let_def split: if_splits)
  have "det * inverse det = 1"
    using nz by simp
  then have one: "a * (d * inverse det) - b * (c * inverse det) = 1"
    by (simp add: det_def algebra_simps)
  show ?thesis
    using one by (simp add: N mat_defs divide_inverse algebra_simps)
qed

lemma inverse_mat_3:
  assumes "inverse_mat [[a, d, g], [b, e, h], [c, f, i]] = Finite N"
  shows "mat_mul [[a, d, g], [b, e, h], [c, f, i]] N = [[1, 0, 0], [0, 1, 0], [0, 0, 1]]"
proof -
  define det where "det = a * (e * i - f * h) - b * (d * i - f * g) + c * (d * h - e * g)"
  from assms have nz: "det \<noteq> 0"
    and N: "N = [[(e * i - f * h) / det, (f * g - d * i) / det, (d * h - e * g) / det],
                 [(c * h - b * i) / det, (a * i - c * g) / det, (b * g - a * h) / det],
                 [(b * f - c * e) / det, (c * d - a * f) / det, (a * e - b * d) / det]]"
    by (auto simp: det_def Let_def split: if_splits)
  have "det * inverse det = 1"
    using nz by simp
  then have one:
    "(a * (e * i - f * h) - b * (d * i - f * g) + c * (d * h - e * g)) * inverse det = 1"
    by (simp add: det_def)
  show ?thesis
    using one by (simp add: N mat_defs divide_inverse algebra_simps)
qed

subsection \<open>Three lidar cycles, computed\<close>

lemma tracking_fields:
  "x_' (tracking x t) = x" "P_' (tracking x t) = prior_covariance"
  "weights_' (tracking x t) = initial_weights" "lambda_' (tracking x t) = - 2"
  "is_initialized_' (tracking x t)" "time_us_' (tracking x t) = t"
  "std_a_' (tracking x t) = 3 / 2" "std_yawdd_' (tracking x t) = 2"
  "std_laspx_' (tracking x t) = 3 / 20" "std_laspy_' (tracking x t) = 3 / 20"
  by (simp_all add: tracking_def UKF_def dim_defs)

lemma aug_cov_prior:
  assumes "P_' s = prior_covariance" and "std_a_' s = 3 / 2" and "std_yawdd_' s = 2"
  shows "augmented_covariance s =
     [[1, 0, 0, 0, 0, 0, 0],
      [0, 1, 0, 0, 0, 0, 0],
      [0, 0, 1, 0, 0, 0, 0],
      [0, 0, 0, 1 / 2, 0, 0, 0],
      [0, 0, 0, 0, 1 / 2, 0, 0],
      [0, 0, 0, 0, 0, 9 / 4, 0],
      [0, 0, 0, 0, 0, 0, 4]]"
  by (simp add: augmented_covariance_def assms prior_covariance_def mat_defs dim_defs
      replicate_2 eval_nat_numeral)

lemma llt_matrixL_7:
  "length A = 7 \<Longrightarrow> llt_matrixL A = llt_loop A 7 [0, 1, 2, 3, 4, 5, 6] []"
  by (simp add: llt_matrixL_def upt_0_7)

text \<open>The factor of the prior: every pivot is positive.\<close>

lemma llt_prior:
  "llt_matrixL
     [[1, 0, 0, 0, 0, 0, 0],
      [0, 1, 0, 0, 0, 0, 0],
      [0, 0, 1, 0, 0, 0, 0],
      [0, 0, 0, 1 / 2, 0, 0, 0],
      [0, 0, 0, 0, 1 / 2, 0, 0],
      [0, 0, 0, 0, 0, 9 / 4, 0],
      [0, 0, 0, 0, 0, 0, 4]] =
     [[1, 0, 0, 0, 0, 0, 0],
      [0, 1, 0, 0, 0, 0, 0],
      [0, 0, 1, 0, 0, 0, 0],
      [0, 0, 0, sqrt (1 / 2), 0, 0, 0],
      [0, 0, 0, 0, sqrt (1 / 2), 0, 0],
      [0, 0, 0, 0, 0, 3 / 2, 0],
      [0, 0, 0, 0, 0, 0, 2]]"
  by (simp add: llt_matrixL_7 llt_pivot_def llt_column_def Let_def upt_0_7 upt_small sqrt_9_4)

lemma llt_prior_is_factor:
  "mat_mul
     [[1, 0, 0, 0, 0, 0, 0],
      [0, 1, 0, 0, 0, 0, 0],
      [0, 0, 1, 0, 0, 0, 0],
      [0, 0, 0, sqrt (1 / 2), 0, 0, 0],
      [0, 0, 0, 0, sqrt (1 / 2), 0, 0],
      [0, 0, 0, 0, 0, 3 / 2, 0],
      [0, 0, 0, 0, 0, 0, 2]]
     (transpose_mat
       [[1, 0, 0, 0, 0, 0, 0],
        [0, 1, 0, 0, 0, 0, 0],
        [0, 0, 1, 0, 0, 0, 0],
        [0, 0, 0, sqrt (1 / 2), 0, 0, 0],
        [0, 0, 0, 0, sqrt (1 / 2), 0, 0],
        [0, 0, 0, 0, 0, 3 / 2, 0],
        [0, 0, 0, 0, 0, 0, 2]]) =
     [[1, 0, 0, 0, 0, 0, 0],
      [0, 1, 0, 0, 0, 0, 0],
      [0, 0, 1, 0, 0, 0, 0],
      [0, 0, 0, 1 / 2, 0, 0, 0],
      [0, 0, 0, 0, 1 / 2, 0, 0],
      [0, 0, 0, 0, 0, 9 / 4, 0],
      [0, 0, 0, 0, 0, 0, 4]]"
  by (simp add: mat_defs upt_0_7 eval_nat_numeral)

text \<open>
  A lidar package with the timestamp of the previous one (\<open>\<Delta>t = 0\<close>), on a filter that
  holds the prior covariance and any state.
\<close>

lemma lidar_same_time:
  fixes px py v yaw yawd zx zy :: real and t :: int
  defines "s \<equiv> tracking [px, py, v, yaw, yawd] t"
  defines "m \<equiv> \<lparr> timestamp_' = t, sensor_type_' = LASER, raw_measurements_' = [zx, zy] \<rparr>"
  shows "\<exists>s'. ProcessMeasurement m s = Finite s' \<and>
           x_' s' = [px + 400 / 409 * (zx - px), py + 400 / 409 * (zy - py), v, yaw, yawd]"
proof -
  define A :: mat where "A =
       [[px, py, v, yaw, yawd, 0, 0], [px + sqrt 5, py, v, yaw, yawd, 0, 0],
        [px, py + sqrt 5, v, yaw, yawd, 0, 0],
        [px, py, v + sqrt 5, yaw, yawd, 0, 0],
        [px, py, v, yaw + sqrt 5 * sqrt (1 / 2), yawd, 0, 0],
        [px, py, v, yaw, yawd + sqrt 5 * sqrt (1 / 2), 0, 0],
        [px, py, v, yaw, yawd, sqrt 5 * 3 / 2, 0],
        [px, py, v, yaw, yawd, 0, sqrt 5 * 2],
        [px - sqrt 5, py, v, yaw, yawd, 0, 0],
        [px, py - sqrt 5, v, yaw, yawd, 0, 0],
        [px, py, v - sqrt 5, yaw, yawd, 0, 0],
        [px, py, v, yaw - sqrt 5 * sqrt (1 / 2), yawd, 0, 0],
        [px, py, v, yaw, yawd - sqrt 5 * sqrt (1 / 2), 0, 0],
        [px, py, v, yaw, yawd, - (sqrt 5 * 3 / 2), 0],
        [px, py, v, yaw, yawd, 0, - (sqrt 5 * 2)]]"
  define B :: mat where "B =
       [[px, py, v, yaw, yawd], [px + sqrt 5, py, v, yaw, yawd],
        [px, py + sqrt 5, v, yaw, yawd], [px, py, v + sqrt 5, yaw, yawd],
        [px, py, v, yaw + sqrt 5 * sqrt (1 / 2), yawd],
        [px, py, v, yaw, yawd + sqrt 5 * sqrt (1 / 2)],
        [px, py, v, yaw, yawd], [px, py, v, yaw, yawd],
        [px - sqrt 5, py, v, yaw, yawd], [px, py - sqrt 5, v, yaw, yawd],
        [px, py, v - sqrt 5, yaw, yawd],
        [px, py, v, yaw - sqrt 5 * sqrt (1 / 2), yawd],
        [px, py, v, yaw, yawd - sqrt 5 * sqrt (1 / 2)],
        [px, py, v, yaw, yawd], [px, py, v, yaw, yawd]]"
  define s1 where "s1 = s\<lparr>time_us_' := t, Xsig_aug_' := A\<rparr>"
  define s2 where "s2 = SigmaPointPrediction 0 s1"
  define s3 where "s3 = PredictMeanAndCovariance s2"
  define s4 where "s4 = PredictLidarMeasurement s3"
  have cov: "augmented_covariance (s\<lparr>time_us_' := t\<rparr>) =
     [[1, 0, 0, 0, 0, 0, 0],
      [0, 1, 0, 0, 0, 0, 0],
      [0, 0, 1, 0, 0, 0, 0],
      [0, 0, 0, 1 / 2, 0, 0, 0],
      [0, 0, 0, 0, 1 / 2, 0, 0],
      [0, 0, 0, 0, 0, 9 / 4, 0],
      [0, 0, 0, 0, 0, 0, 4]]"
    by (rule aug_cov_prior) (simp_all add: s_def tracking_fields)
  have gen: "GenerateAugmentedSigmaPoints (s\<lparr>time_us_' := timestamp_' m\<rparr>) = Finite s1"
    by (simp add: GenerateAugmentedSigmaPoints_def cov llt_prior augmented_mean_def eval_simps
        m_def s1_def A_def) (simp add: s_def tracking_fields)
  have dt: "elapsed_seconds m s = 0"
    by (simp add: elapsed_seconds_def m_def s_def tracking_fields)
  have run: "ProcessMeasurement m s = UpdateLidar m s4"
    unfolding s4_def s3_def s2_def dt [symmetric]
    by (rule ProcessMeasurement_LASER [OF _ _ gen]) (simp_all add: s_def m_def tracking_fields)
  have s2: "Xsig_pred_' s2 = B" "weights_' s2 = initial_weights"
    "std_laspx_' s2 = 3 / 20" "std_laspy_' s2 = 3 / 20"
    by (simp_all add: s2_def SigmaPointPrediction_fields s1_def s_def tracking_fields A_def B_def
        predict_column_def eval_simps)
  have mean: "weighted_mean initial_weights B 5 = [px, py, v, yaw, yawd]"
    by (simp add: weighted_mean_def initial_weights_def B_def eval_simps)
      (simp add: add_divide_distrib diff_divide_distrib)
  have s3: "Xsig_pred_' s3 = B" "weights_' s3 = initial_weights"
    "std_laspx_' s3 = 3 / 20" "std_laspy_' s3 = 3 / 20" "x_' s3 = [px, py, v, yaw, yawd]"
    by (simp_all add: s3_def PredictMeanAndCovariance_fields s2 mean dim_defs)
  have zmean: "weighted_mean initial_weights (map (\<lambda>c. [c ! 0, c ! Suc 0]) B) 2 = [px, py]"
    by (simp add: weighted_mean_def initial_weights_def B_def eval_simps)
      (simp add: add_divide_distrib diff_divide_distrib)
  have Zmap: "map (\<lambda>i. [B ! i ! 0, B ! i ! Suc 0]) [0..<15] = map (\<lambda>c. [c ! 0, c ! Suc 0]) B"
    by (simp add: B_def upt_0_15)
  have s4: "Xsig_pred_' s4 = B" "weights_' s4 = initial_weights" "x_' s4 = [px, py, v, yaw, yawd]"
    "Zsig_lidar s4 = map (\<lambda>c. [c ! 0, c ! Suc 0]) B" "z_pred_l_' s4 = [px, py]"
    by (simp_all add: s4_def PredictLidarMeasurement_fields s3 dim_defs Zmap zmean)
  have S: "S_l_' s4 = [[409 / 400, 0], [0, 409 / 400]]"
    apply (simp add: s4_def PredictLidarMeasurement_S s3 dim_defs Zmap zmean)
    apply (simp add: measurement_covariance_def initial_weights_def B_def eval_simps)
    done
  have Tc: "lidar_Tc s4 = [[1, 0, 0, 0, 0], [0, 1, 0, 0, 0]]"
    apply (simp add: lidar_Tc_def s4 dim_defs upt_0_15 Let_def)
    apply (simp add: initial_weights_def B_def mat_defs eval_nat_numeral)
    done
  have inv: "inverse_mat (S_l_' s4) = Finite [[400 / 409, 0], [0, 400 / 409]]"
    by (simp add: S)
  have len: "2 \<le> length (raw_measurements_' m)"
    by (simp add: m_def)
  from UpdateLidar_x [OF inv len] obtain s' where s': "UpdateLidar m s4 = Finite s'"
    "x_' s' = vadd (x_' s4) (mat_vec (mat_mul (lidar_Tc s4) [[400 / 409, 0], [0, 400 / 409]])
        (vsub [raw_measurements_' m ! 0, raw_measurements_' m ! 1] (z_pred_l_' s4)))"
    by blast
  have "x_' s' = [px + 400 / 409 * (zx - px), py + 400 / 409 * (zy - py), v, yaw, yawd]"
    by (simp add: s'(2) Tc s4 m_def mat_defs)
  with run s'(1) show ?thesis
    by simp
qed

text \<open>
  A lidar package stamped one second before the previous one (\<open>\<Delta>t = -1\<close>), on the filter
  a first measurement at \<open>(px, py)\<close> leaves. Column 3 is the sigma point of speed
  \<open>\<surd>5\<close>: it is moved against its velocity.
\<close>

lemma lidar_one_second_back:
  fixes px py zx zy :: real and t :: int
  defines "s \<equiv> tracking [px, py, 0, 0, 0] (t + 1000000)"
  defines "m \<equiv> \<lparr> timestamp_' = t, sensor_type_' = LASER, raw_measurements_' = [zx, zy] \<rparr>"
  shows "\<exists>s'. ProcessMeasurement m s = Finite s' \<and>
           Xsig_pred_' s' ! 3 = [px - sqrt 5, py, sqrt 5, 0, 0] \<and>
           x_' s' = [px + 1025 / 1034 * (zx - px), py + 400 / 409 * (zy - py),
                     - (425 / 517) * (zx - px), 0, 0]"
proof -
  define A :: mat where "A =
       [[px, py, 0, 0, 0, 0, 0], [px + sqrt 5, py, 0, 0, 0, 0, 0],
        [px, py + sqrt 5, 0, 0, 0, 0, 0],
        [px, py, sqrt 5, 0, 0, 0, 0],
        [px, py, 0, sqrt 5 * sqrt (1 / 2), 0, 0, 0],
        [px, py, 0, 0, sqrt 5 * sqrt (1 / 2), 0, 0],
        [px, py, 0, 0, 0, sqrt 5 * 3 / 2, 0],
        [px, py, 0, 0, 0, 0, sqrt 5 * 2],
        [px - sqrt 5, py, 0, 0, 0, 0, 0],
        [px, py - sqrt 5, 0, 0, 0, 0, 0],
        [px, py, - sqrt 5, 0, 0, 0, 0],
        [px, py, 0, - (sqrt 5 * sqrt (1 / 2)), 0, 0, 0],
        [px, py, 0, 0, - (sqrt 5 * sqrt (1 / 2)), 0, 0],
        [px, py, 0, 0, 0, - (sqrt 5 * 3 / 2), 0],
        [px, py, 0, 0, 0, 0, - (sqrt 5 * 2)]]"
  define B :: mat where "B =
       [[px, py, 0, 0, 0], [px + sqrt 5, py, 0, 0, 0],
        [px, py + sqrt 5, 0, 0, 0],
        [px - sqrt 5, py, sqrt 5, 0, 0],
        [px, py, 0, sqrt 5 * sqrt (1 / 2), 0],
        [px, py, 0, - (sqrt 5 * sqrt (1 / 2)), sqrt 5 * sqrt (1 / 2)],
        [px + sqrt 5 * 3 / 4, py, - (sqrt 5 * 3 / 2), 0, 0],
        [px, py, 0, sqrt 5, - (sqrt 5 * 2)],
        [px - sqrt 5, py, 0, 0, 0], [px, py - sqrt 5, 0, 0, 0],
        [px + sqrt 5, py, - sqrt 5, 0, 0],
        [px, py, 0, - (sqrt 5 * sqrt (1 / 2)), 0],
        [px, py, 0, sqrt 5 * sqrt (1 / 2), - (sqrt 5 * sqrt (1 / 2))],
        [px - sqrt 5 * 3 / 4, py, sqrt 5 * 3 / 2, 0, 0],
        [px, py, 0, - sqrt 5, sqrt 5 * 2]]"
  define s1 where "s1 = s\<lparr>time_us_' := t, Xsig_aug_' := A\<rparr>"
  define s2 where "s2 = SigmaPointPrediction (- 1) s1"
  define s3 where "s3 = PredictMeanAndCovariance s2"
  define s4 where "s4 = PredictLidarMeasurement s3"
  have cov: "augmented_covariance (s\<lparr>time_us_' := t\<rparr>) =
     [[1, 0, 0, 0, 0, 0, 0],
      [0, 1, 0, 0, 0, 0, 0],
      [0, 0, 1, 0, 0, 0, 0],
      [0, 0, 0, 1 / 2, 0, 0, 0],
      [0, 0, 0, 0, 1 / 2, 0, 0],
      [0, 0, 0, 0, 0, 9 / 4, 0],
      [0, 0, 0, 0, 0, 0, 4]]"
    by (rule aug_cov_prior) (simp_all add: s_def tracking_fields)
  have gen: "GenerateAugmentedSigmaPoints (s\<lparr>time_us_' := timestamp_' m\<rparr>) = Finite s1"
    by (simp add: GenerateAugmentedSigmaPoints_def cov llt_prior augmented_mean_def eval_simps
        m_def s1_def A_def) (simp add: s_def tracking_fields)
  have dt: "elapsed_seconds m s = - 1"
    by (simp add: elapsed_seconds_def m_def s_def tracking_fields)
  have run: "ProcessMeasurement m s = UpdateLidar m s4"
    unfolding s4_def s3_def s2_def dt [symmetric]
    by (rule ProcessMeasurement_LASER [OF _ _ gen]) (simp_all add: s_def m_def tracking_fields)
  have s2: "Xsig_pred_' s2 = B" "weights_' s2 = initial_weights"
    "std_laspx_' s2 = 3 / 20" "std_laspy_' s2 = 3 / 20"
    by (simp_all add: s2_def SigmaPointPrediction_fields s1_def s_def tracking_fields A_def B_def
        predict_column_def eval_simps)
  have mean: "weighted_mean initial_weights B 5 = [px, py, 0, 0, 0]"
    by (simp add: weighted_mean_def initial_weights_def B_def eval_simps)
      (simp add: add_divide_distrib diff_divide_distrib)
  have s3: "Xsig_pred_' s3 = B" "weights_' s3 = initial_weights"
    "std_laspx_' s3 = 3 / 20" "std_laspy_' s3 = 3 / 20" "x_' s3 = [px, py, 0, 0, 0]"
    by (simp_all add: s3_def PredictMeanAndCovariance_fields s2 mean dim_defs)
  have zmean: "weighted_mean initial_weights (map (\<lambda>c. [c ! 0, c ! Suc 0]) B) 2 = [px, py]"
    by (simp add: weighted_mean_def initial_weights_def B_def eval_simps)
      (simp add: add_divide_distrib diff_divide_distrib)
  have Zmap: "map (\<lambda>i. [B ! i ! 0, B ! i ! Suc 0]) [0..<15] = map (\<lambda>c. [c ! 0, c ! Suc 0]) B"
    by (simp add: B_def upt_0_15)
  have s4: "Xsig_pred_' s4 = B" "weights_' s4 = initial_weights" "x_' s4 = [px, py, 0, 0, 0]"
    "Zsig_lidar s4 = map (\<lambda>c. [c ! 0, c ! Suc 0]) B" "z_pred_l_' s4 = [px, py]"
    by (simp_all add: s4_def PredictLidarMeasurement_fields s3 dim_defs Zmap zmean)
  have S: "S_l_' s4 = [[517 / 200, 0], [0, 409 / 400]]"
    apply (simp add: s4_def PredictLidarMeasurement_S s3 dim_defs Zmap zmean)
    apply (simp add: measurement_covariance_def initial_weights_def B_def eval_simps)
    done
  have Tc: "lidar_Tc s4 = [[41 / 16, 0, - (17 / 8), 0, 0], [0, 1, 0, 0, 0]]"
    apply (simp add: lidar_Tc_def s4 dim_defs upt_0_15 Let_def)
    apply (simp add: initial_weights_def B_def mat_defs eval_nat_numeral)
    done
  have inv: "inverse_mat (S_l_' s4) = Finite [[200 / 517, 0], [0, 400 / 409]]"
    by (simp add: S)
  have len: "2 \<le> length (raw_measurements_' m)"
    by (simp add: m_def)
  from UpdateLidar_x [OF inv len] obtain s' where s': "UpdateLidar m s4 = Finite s'"
    "x_' s' = vadd (x_' s4) (mat_vec (mat_mul (lidar_Tc s4) [[200 / 517, 0], [0, 400 / 409]])
        (vsub [raw_measurements_' m ! 0, raw_measurements_' m ! 1] (z_pred_l_' s4)))"
    "Xsig_pred_' s' = Xsig_pred_' s4"
    by blast
  have "x_' s' = [px + 1025 / 1034 * (zx - px), py + 400 / 409 * (zy - py),
                     - (425 / 517) * (zx - px), 0, 0]"
    by (simp add: s'(2) Tc s4 m_def mat_defs)
  moreover have "Xsig_pred_' s' ! 3 = [px - sqrt 5, py, sqrt 5, 0, 0]"
    by (simp add: s'(3) s4 B_def)
  ultimately show ?thesis using run s'(1)
    by simp
qed

subsection \<open>Elapsed time\<close>

text \<open>
  Claim C1, as the code has it. For every measurement processed after initialization,
  \<^verbatim>\<open>ProcessMeasurement\<close> takes \<open>\<Delta>t = (timestamp - previous timestamp) / 10\<^sup>6\<close> as
  it is, with no clamp, stores the new timestamp and runs the prediction with that \<open>\<Delta>t\<close>
  before the update: when the cycle returns a finite state, the first augmented sigma
  point is the previous state and every predicted sigma point is the CTRV step of its
  augmented sigma point over \<open>\<Delta>t\<close>, also when \<open>\<Delta>t\<close> is zero or negative.
\<close>

theorem ProcessMeasurement_predicts_over_signed_elapsed_time:
  assumes init: "is_initialized_' s" and run: "ProcessMeasurement m s = Finite s'"
  shows "time_us_' s' = timestamp_' m
     \<and> Xsig_aug_' s' ! 0 = x_' s @ [0, 0]
     \<and> Xsig_pred_' s' =
         map (\<lambda>i. predict_column (real_of_int (timestamp_' m - time_us_' s) / 1000000)
                  (Xsig_aug_' s' ! i)) [0..<15]"
proof -
  define dt where "dt = real_of_int (timestamp_' m - time_us_' s) / 1000000"
  define s0 where "s0 = s\<lparr>time_us_' := timestamp_' m\<rparr>"
  from init run obtain s3 where p: "Prediction dt s0 = Finite s3"
    by (auto simp: ProcessMeasurement_def Let_def elapsed_seconds_def dt_def s0_def
        split: sum.splits)
  have s3: "Xsig_aug_' s3 ! 0 = x_' s @ [0, 0]" "time_us_' s3 = timestamp_' m"
    "Xsig_pred_' s3 = map (\<lambda>i. predict_column dt (Xsig_aug_' s3 ! i)) [0..<15]"
    using Prediction_frame [OF p] by (simp_all add: s0_def)
  have keep: "Xsig_aug_' s' = Xsig_aug_' s3 \<and> Xsig_pred_' s' = Xsig_pred_' s3
      \<and> time_us_' s' = time_us_' s3"
  proof (cases "sensor_type_' m")
    case LASER
    with init run p have "UpdateLidar m (PredictLidarMeasurement s3) = Finite s'"
      by (simp add: ProcessMeasurement_def Let_def elapsed_seconds_def dt_def s0_def)
    from UpdateLidar_frame [OF this] show ?thesis
      by (simp add: PredictLidarMeasurement_frame PredictLidarMeasurement_fields)
  next
    case RADAR
    with init run p obtain s4 where r: "PredictRadarMeasurement s3 = Finite s4"
      and u: "UpdateRadar m s4 = Finite s'"
      by (auto simp: ProcessMeasurement_def Let_def elapsed_seconds_def dt_def s0_def
          split: sum.splits)
    from UpdateRadar_frame [OF u] PredictRadarMeasurement_frame [OF r] show ?thesis
      by simp
  qed
  with s3 show ?thesis
    by (simp add: dt_def)
qed

theorem ProcessMeasurement_predicts_over_signed_elapsed_time_witness:
  "is_initialized_' (tracking [1, 2, 0, 0, 0] 1000000)
   \<and> (\<exists>s'. ProcessMeasurement
              \<lparr> timestamp_' = 0, sensor_type_' = LASER, raw_measurements_' = [0, 0] \<rparr>
              (tracking [1, 2, 0, 0, 0] 1000000) = Finite s'
         \<and> time_us_' s' = 0
         \<and> Xsig_aug_' s' ! 0 = [1, 2, 0, 0, 0, 0, 0]
         \<and> Xsig_pred_' s' = map (\<lambda>i. predict_column (- 1) (Xsig_aug_' s' ! i)) [0..<15])"
proof -
  let ?m = "\<lparr> timestamp_' = 0, sensor_type_' = LASER, raw_measurements_' = [0, 0] \<rparr>"
  let ?s = "tracking [1, 2, 0, 0, 0] 1000000"
  have init: "is_initialized_' ?s"
    by (simp add: tracking_fields)
  from lidar_one_second_back [of 0 0 0 1 2]
  obtain s' where run: "ProcessMeasurement ?m ?s = Finite s'"
    by auto
  from ProcessMeasurement_predicts_over_signed_elapsed_time [OF init run]
  have "time_us_' s' = 0 \<and> Xsig_aug_' s' ! 0 = [1, 2, 0, 0, 0, 0, 0]
     \<and> Xsig_pred_' s' = map (\<lambda>i. predict_column (- 1) (Xsig_aug_' s' ! i)) [0..<15]"
    by (simp add: tracking_fields)
  with init run show ?thesis
    by blast
qed

text \<open>
  The claim as stated fails. A first lidar measurement at the origin at time
  \<open>1 000 000 \<mu>s\<close> is followed by a lidar measurement \<open>(1, 0)\<close> stamped \<open>0 \<mu>s\<close>: the
  timestamp is not later than the previous one, \<open>\<Delta>t\<close> is \<open>-1\<close> and not \<open>0\<close>, the
  prediction runs and moves the sigma point of speed \<open>\<surd>5\<close> from \<open>px = 0\<close> to
  \<open>px = -\<surd>5\<close>, and the estimate after the update has a negative speed for an object
  that was seen at \<open>px = 0\<close> and then at \<open>px = 1\<close>.
\<close>

theorem earlier_timestamp_counterexample:
  "timestamp_' \<lparr> timestamp_' = 0, sensor_type_' = LASER, raw_measurements_' = [1, 0] \<rparr>
     \<le> time_us_' (tracking [0, 0, 0, 0, 0] 1000000)
   \<and> elapsed_seconds \<lparr> timestamp_' = 0, sensor_type_' = LASER, raw_measurements_' = [1, 0] \<rparr>
        (tracking [0, 0, 0, 0, 0] 1000000) = - 1
   \<and> (\<exists>s'. ProcessMeasurement
              \<lparr> timestamp_' = 0, sensor_type_' = LASER, raw_measurements_' = [1, 0] \<rparr>
              (tracking [0, 0, 0, 0, 0] 1000000) = Finite s'
         \<and> Xsig_pred_' s' ! 3 = [- sqrt 5, 0, sqrt 5, 0, 0]
         \<and> x_' s' = [1025 / 1034, 0, - (425 / 517), 0, 0])"
  using lidar_one_second_back [of 0 1 0 0 0]
  by (simp add: tracking_fields elapsed_seconds_def)

subsection \<open>Radar projection\<close>

lemma radar_column_cases:
  "radar_column c =
     (if c ! 0 * c ! 0 \<le> 1 / 2 ^ 1075 \<and> c ! 1 * c ! 1 \<le> 1 / 2 ^ 1075 then NonFinite
      else Finite [sqrt (c ! 0 * c ! 0 + c ! 1 * c ! 1),
                   atan2 (c ! 1) (c ! 0),
                   (c ! 0 * (cos (c ! 3) * c ! 2) + c ! 1 * (sin (c ! 3) * c ! 2))
                     / sqrt (c ! 0 * c ! 0 + c ! 1 * c ! 1)])"
  by (simp add: radar_column_def Let_def square_is_zero_iff del: power_numeral)

lemma all_columns_NonFinite:
  "i < length cs \<Longrightarrow> cs ! i = NonFinite \<Longrightarrow> \<forall>c\<in>set cs. c \<noteq> OutOfRange
     \<Longrightarrow> all_columns cs = NonFinite"
proof (induction cs arbitrary: i)
  case Nil
  then show ?case by simp
next
  case (Cons c cs)
  show ?case
  proof (cases i)
    case 0
    with Cons.prems show ?thesis by simp
  next
    case (Suc j)
    with Cons.prems have "all_columns cs = NonFinite"
      by (intro Cons.IH [of j]) simp_all
    moreover from Cons.prems have "c \<noteq> OutOfRange"
      by simp
    ultimately show ?thesis
      by (cases c) (auto intro: fault.exhaust)
  qed
qed

lemma PredictRadarMeasurement_underflow:
  assumes "i < 15" and "(Xsig_pred_' s ! i ! 0)\<^sup>2 \<le> 1 / 2 ^ 1075"
    and "(Xsig_pred_' s ! i ! 1)\<^sup>2 \<le> 1 / 2 ^ 1075"
  shows "PredictRadarMeasurement s = NonFinite"
proof -
  have "all_columns (map (\<lambda>i. radar_column (Xsig_pred_' s ! i)) [0..<15]) = NonFinite"
  proof (rule all_columns_NonFinite [of i])
    show "i < length (map (\<lambda>i. radar_column (Xsig_pred_' s ! i)) [0..<15])"
      using assms(1) by simp
    show "map (\<lambda>i. radar_column (Xsig_pred_' s ! i)) [0..<15] ! i = NonFinite"
      using assms by (simp add: radar_column_cases power2_eq_square del: power_numeral upt.simps)
    show "\<forall>c\<in>set (map (\<lambda>i. radar_column (Xsig_pred_' s ! i)) [0..<15]). c \<noteq> OutOfRange"
      by (auto simp: radar_column_def Let_def simp del: upt.simps)
  qed
  then show ?thesis
    by (simp add: PredictRadarMeasurement_def dim_defs)
qed

text \<open>
  A radar package on the filter that a first lidar measurement \<open>(px, py)\<close> left: the
  central sigma point has speed \<open>0\<close> and stays at \<open>(px, py)\<close> whatever the elapsed time.
\<close>

lemma central_point_stays:
  assumes p: "Prediction dt ((tracking [px, py, 0, 0, 0] t)\<lparr>time_us_' := t'\<rparr>) = Finite s3"
  shows "Xsig_pred_' s3 ! 0 = [px, py, 0, 0, 0]"
proof -
  from Prediction_frame [OF p]
  have "Xsig_pred_' s3 ! 0 = predict_column dt [px, py, 0, 0, 0, 0, 0]"
    by (simp add: upt_0_15 tracking_fields)
  then show ?thesis
    by (simp add: predict_column_def)
qed

text \<open>
  Claim C2, as the code has it. The radar projection divides by
  \<open>\<rho> = \<surd>(px\<^sup>2 + py\<^sup>2)\<close> with no guard and no floor. For every predicted sigma point whose
  squares \<open>px\<^sup>2\<close> and \<open>py\<^sup>2\<close> are rounded to zero (they are at most \<open>2\<^sup>-\<^sup>1\<^sup>0\<^sup>7\<^sup>5\<close>: the origin
  and the points so near to it that the squares underflow) the divisor is zero and the
  projected range rate is not finite, and with one such sigma point among the 15
  \<^verbatim>\<open>PredictRadarMeasurement\<close> leaves no finite measurement prediction.
\<close>

theorem radar_column_divides_unguarded:
  "i < 15 \<Longrightarrow> Xsig_pred_' s ! i = c \<Longrightarrow>
   (c ! 0)\<^sup>2 \<le> 1 / 2 ^ 1075 \<Longrightarrow> (c ! 1)\<^sup>2 \<le> 1 / 2 ^ 1075 \<Longrightarrow>
   radar_column c = NonFinite \<and> PredictRadarMeasurement s = NonFinite"
proof -
  assume i: "i < 15" and c: "Xsig_pred_' s ! i = c"
    and x: "(c ! 0)\<^sup>2 \<le> 1 / 2 ^ 1075" and y: "(c ! 1)\<^sup>2 \<le> 1 / 2 ^ 1075"
  from x y have "radar_column c = NonFinite"
    by (simp add: radar_column_cases power2_eq_square del: power_numeral)
  moreover from i x y have "PredictRadarMeasurement s = NonFinite"
    unfolding c [symmetric] by (rule PredictRadarMeasurement_underflow)
  ultimately show ?thesis ..
qed

text \<open>
  The filter after a first lidar measurement at \<open>(2\<^sup>-\<^sup>6\<^sup>0\<^sup>0, 2\<^sup>-\<^sup>6\<^sup>0\<^sup>0)\<close>, at the entry of
  \<^verbatim>\<open>PredictRadarMeasurement\<close>: the central sigma point is not at the origin, its squares
  underflow, and the projection is not finite.
\<close>

theorem radar_column_divides_unguarded_witness:
  "\<exists>s3. Prediction 0 ((tracking [1 / 2 ^ 600, 1 / 2 ^ 600, 0, 0, 0] 0)\<lparr>time_us_' := 0\<rparr>)
           = Finite s3
     \<and> (0::nat) < 15
     \<and> Xsig_pred_' s3 ! 0 = [1 / 2 ^ 600, 1 / 2 ^ 600, 0, 0, 0]
     \<and> ([1 / 2 ^ 600, 1 / 2 ^ 600, 0, 0, 0 :: real] ! 0)\<^sup>2 \<le> 1 / 2 ^ 1075
     \<and> ([1 / 2 ^ 600, 1 / 2 ^ 600, 0, 0, 0 :: real] ! 1)\<^sup>2 \<le> 1 / 2 ^ 1075
     \<and> radar_column [1 / 2 ^ 600, 1 / 2 ^ 600, 0, 0, 0] = NonFinite
     \<and> PredictRadarMeasurement s3 = NonFinite"
proof -
  let ?s = "(tracking [1 / 2 ^ 600, 1 / 2 ^ 600, 0, 0, 0] 0)\<lparr>time_us_' := 0\<rparr>"
  let ?c = "[1 / 2 ^ 600, 1 / 2 ^ 600, 0, 0, 0 :: real]"
  have "0 \<le> lambda_' ?s + 7"
    by (simp add: tracking_fields)
  from Prediction_Finite [OF this]
  obtain s3 where p: "Prediction 0 ?s = Finite s3"
    by blast
  have c: "Xsig_pred_' s3 ! 0 = ?c"
    by (rule central_point_stays [OF p])
  have i: "(0::nat) < 15"
    by simp
  have x: "(?c ! 0)\<^sup>2 \<le> 1 / 2 ^ 1075" and y: "(?c ! 1)\<^sup>2 \<le> 1 / 2 ^ 1075"
    by (simp_all add: power_divide)
  from radar_column_divides_unguarded [OF i c x y] p c i x y show ?thesis
    by blast
qed

text \<open>
  The claim as stated fails. The sigma point at the origin has no finite range rate,
  and a radar measurement that follows a first lidar measurement at the origin leaves
  the filter with a non-finite state: the central sigma point stays at the origin, where
  the projection divides by zero.
\<close>

theorem radar_range_zero_counterexample:
  "radar_column [0, 0, 1, 0, 0] = NonFinite
   \<and> ProcessMeasurement
       \<lparr> timestamp_' = 50000, sensor_type_' = RADAR, raw_measurements_' = [1, 0, 0] \<rparr>
       (tracking [0, 0, 0, 0, 0] 0) = NonFinite"
proof -
  let ?m = "\<lparr> timestamp_' = 50000, sensor_type_' = RADAR, raw_measurements_' = [1, 0, 0] \<rparr>"
  let ?s = "tracking [0, 0, 0, 0, 0] 0"
  let ?u = "?s\<lparr>time_us_' := timestamp_' ?m\<rparr>"
  have "0 \<le> lambda_' ?u + 7"
    by (simp add: tracking_fields)
  from Prediction_Finite [OF this]
  obtain s3 where p: "Prediction (elapsed_seconds ?m ?s) ?u = Finite s3"
    by blast
  have "Xsig_pred_' s3 ! 0 = [0, 0, 0, 0, 0]"
    by (rule central_point_stays [OF p])
  then have "PredictRadarMeasurement s3 = NonFinite"
    by (intro PredictRadarMeasurement_underflow [of 0]) simp_all
  with p have "ProcessMeasurement ?m ?s = NonFinite"
    by (simp add: ProcessMeasurement_def Let_def tracking_fields)
  moreover have "radar_column [0, 0, 1, 0, 0] = NonFinite"
    by (simp add: radar_column_cases)
  ultimately show ?thesis by simp
qed

subsection \<open>The sensor flags\<close>

text \<open>
  Claim C5 fails on the code. The constructor's comments say that a false
  \<^verbatim>\<open>use_laser_\<close> makes laser measurements ignored; no member function reads the
  flags (lemma \<open>flags_never_read\<close>). Here both flags are false on a filter that a first
  measurement at the origin initialized, and a LASER package \<open>(1, 0)\<close> is processed:
  the state moves from the origin to \<open>px = 400/409\<close>.
\<close>

theorem disabled_laser_still_updates:
  "use_laser_' (set_flags False False (tracking [0, 0, 0, 0, 0] 0)) = False
   \<and> x_' (set_flags False False (tracking [0, 0, 0, 0, 0] 0)) = [0, 0, 0, 0, 0]
   \<and> (\<exists>s'. ProcessMeasurement
              \<lparr> timestamp_' = 0, sensor_type_' = LASER, raw_measurements_' = [1, 0] \<rparr>
              (set_flags False False (tracking [0, 0, 0, 0, 0] 0)) = Finite s'
         \<and> x_' s' = [400 / 409, 0, 0, 0, 0])"
proof -
  let ?m = "\<lparr> timestamp_' = 0, sensor_type_' = LASER, raw_measurements_' = [1, 0] \<rparr>"
  from lidar_same_time [of 0 1 0 0 0 0 0]
  obtain s' where s': "ProcessMeasurement ?m (tracking [0, 0, 0, 0, 0] 0) = Finite s'"
    "x_' s' = [400 / 409, 0, 0, 0, 0]"
    by auto
  have "ProcessMeasurement ?m (set_flags False False (tracking [0, 0, 0, 0, 0] 0))
      = Finite (set_flags False False s')"
    by (simp add: flags_never_read s'(1))
  moreover have "x_' (set_flags False False s') = [400 / 409, 0, 0, 0, 0]"
    by (simp add: set_flags_fields s'(2))
  ultimately show ?thesis
    by (simp add: set_flags_fields tracking_fields)
qed

end
